theory Spec2Isabelle
  imports Main "HOL-Library.Sublist" "HOL-Library.AList"
begin


section \<open>JavaScript values used by the bridge\<close>

text \<open>
  Strings are lists of code units (restricted to those below 256); \<open>undefined\<close> and
  \<open>null\<close> are \<open>None\<close>. A string is truthy when it is present and non-empty.
\<close>

definition truthy :: "string option \<Rightarrow> bool" where
  "truthy s = (case s of None \<Rightarrow> False | Some t \<Rightarrow> t \<noteq> [])"

text \<open>\<^verbatim>\<open>a || b\<close> on optional strings: the left operand when it is truthy.\<close>

definition or_else :: "string option \<Rightarrow> string option \<Rightarrow> string option" where
  "or_else a b = (if truthy a then a else b)"

text \<open>\<^verbatim>\<open>s.endsWith(t)\<close>.\<close>

definition endsWith :: "string \<Rightarrow> string \<Rightarrow> bool" where
  "endsWith s t = (length t \<le> length s \<and> drop (length s - length t) s = t)"

text \<open>The character class \<^verbatim>\<open>\d\<close>; \<^verbatim>\<open>\D\<close> is its complement.\<close>

definition is_digit :: "char \<Rightarrow> bool" where
  "is_digit c = (c \<in> set ''0123456789'')"

text \<open>\<^verbatim>\<open>s.split(sep)[0]\<close> for a one-character separator.\<close>

definition split_first :: "char \<Rightarrow> string \<Rightarrow> string" where
  "split_first sep s = takeWhile (\<lambda>c. c \<noteq> sep) s"

text \<open>What a \<^verbatim>\<open>catch\<close> clause receives: an \<^verbatim>\<open>Error\<close> with its message, or any other value.\<close>

datatype thrown = ErrorObj string | OtherThrown

section \<open>The connection manager's data (whatsapp-connection.ts)\<close>

datatype conn_status = Connecting | Connected | Disconnected | Failed

text \<open>
  \<^verbatim>\<open>interface UserConnection\<close>. The status \<^verbatim>\<open>"error"\<close> is \<open>Failed\<close>; a socket is named
  by the number under which it was created.
\<close>

record UserConnection =
  userId :: string
  socket :: "nat option"
  authDir :: string
  status :: conn_status
  phone :: "string option"
  error :: "string option"
  lastConnectedAt :: "int option"
  reconnectAttempts :: int

datatype chat_type = Direct | Group

text \<open>\<^verbatim>\<open>interface InboundMessage\<close>, its \<^verbatim>\<open>metadata\<close> fields inlined; \<^verbatim>\<open>integrationId\<close> is always \<^verbatim>\<open>"whatsapp"\<close>.\<close>

record InboundMessage =
  im_userId :: string
  im_integrationId :: string
  im_chatId :: string
  im_from :: string
  im_text :: string
  im_timestamp :: int
  im_conversationId :: "string option"
  im_chatType :: chat_type
  im_senderName :: "string option"
  im_senderJid :: "string option"
  im_groupSubject :: "string option"
  im_messageId :: "string option"

text \<open>A registered callback: given the message, its promise resolves (\<open>None\<close>) or rejects.\<close>

type_synonym OnMessageCallback = "InboundMessage \<Rightarrow> thrown option"

text \<open>
  \<^verbatim>\<open>class WhatsAppConnectionManager\<close>. \<^verbatim>\<open>UserConnection\<close> objects are shared by reference
  between the map, the socket handlers and the reconnect timers, so they live in a store
  (\<open>objs\<close>, a reference is an index) and \<open>connections\<close> holds the map's entries in
  insertion order. \<open>sockets\<close> lists, for every socket created so far, the object its
  handlers close over; \<open>timers\<close> lists the pending reconnect timers, each with the object
  its callback closes over; \<open>ended\<close> lists the sockets on which \<^verbatim>\<open>end\<close> was called;
  \<open>files\<close> holds the content of every file of the file system.
\<close>

record manager =
  objs :: "UserConnection list"
  connections :: "(string \<times> nat) list"
  onMessageCallback :: "OnMessageCallback option"
  apiUrl :: "string option"
  isInitialized :: bool
  sockets :: "nat list"
  timers :: "nat list"
  ended :: "nat list"
  files :: "string \<rightharpoonup> string"

definition deref :: "manager \<Rightarrow> nat \<Rightarrow> UserConnection option" where
  "deref m r = (if r < length (objs m) then Some (objs m ! r) else None)"

text \<open>\<^verbatim>\<open>this.connections.get(userId)\<close>.\<close>

definition connections_get :: "manager \<Rightarrow> string \<Rightarrow> UserConnection option" where
  "connections_get m u = (case map_of (connections m) u of None \<Rightarrow> None | Some r \<Rightarrow> deref m r)"

text \<open>The entries \<^verbatim>\<open>[userId, conn]\<close> that iterating \<^verbatim>\<open>this.connections\<close> yields, in order.\<close>

definition entries :: "manager \<Rightarrow> (string \<times> UserConnection) list" where
  "entries m = List.map_filter (\<lambda>(u, r). map_option (Pair u) (deref m r)) (connections m)"

subsection \<open>getUserIdByPhone, getConnectedUserIds\<close>

text \<open>\<^verbatim>\<open>phone.replace(/\D/g, "")\<close>.\<close>

definition normalize_phone :: "string \<Rightarrow> string" where
  "normalize_phone ph = filter is_digit ph"

text \<open>The \<^verbatim>\<open>for\<close> loop of \<^verbatim>\<open>getUserIdByPhone\<close> over the remaining entries.\<close>

fun phone_loop :: "string \<Rightarrow> (string \<times> UserConnection) list \<Rightarrow> string option" where
  "phone_loop normalized [] = None"
| "phone_loop normalized ((uid, conn) # rest) =
     (if truthy (phone conn) \<and> endsWith (the (phone conn)) normalized then Some uid
      else if truthy (phone conn) \<and> endsWith normalized (the (phone conn)) then Some uid
      else phone_loop normalized rest)"

definition getUserIdByPhone :: "manager \<Rightarrow> string \<Rightarrow> string option" where
  "getUserIdByPhone m ph = phone_loop (normalize_phone ph) (entries m)"

definition getConnectedUserIds :: "manager \<Rightarrow> string list" where
  "getConnectedUserIds m = map fst (filter (\<lambda>(_, conn). status conn = Connected) (entries m))"

section \<open>Inbound messages (handleIncomingMessage)\<close>

text \<open>The fields of a \<^verbatim>\<open>WAMessage\<close> that the handler reads.\<close>

record WAMessageKey =
  remoteJid :: "string option"
  fromMe :: "bool option"
  participant :: "string option"
  key_id :: "string option"

text \<open>
  \<^verbatim>\<open>msg.message\<close>: \<open>extendedText\<close> is \<^verbatim>\<open>extendedTextMessage?.text\<close>, \<open>imageCaption\<close> is
  \<^verbatim>\<open>imageMessage?.caption\<close>, \<open>videoCaption\<close> is \<^verbatim>\<open>videoMessage?.caption\<close>.
\<close>

record WAMessageContent =
  conversation :: "string option"
  extendedText :: "string option"
  imageCaption :: "string option"
  videoCaption :: "string option"

record WAMessage =
  key :: "WAMessageKey option"
  message :: "WAMessageContent option"
  messageTimestamp :: "int option"
  pushName :: "string option"

text \<open>
  The white space that \<^verbatim>\<open>trim\<close> removes, among the code units below 256: tab, line feed,
  vertical tab, form feed, carriage return, space and no-break space.
\<close>

definition is_js_whitespace :: "char \<Rightarrow> bool" where
  "is_js_whitespace c = (c \<in> set [CHR 0x09, CHR 0x0A, CHR 0x0B, CHR 0x0C, CHR 0x0D, CHR 0x20, CHR 0xA0])"

definition js_trim :: "string \<Rightarrow> string" where
  "js_trim s = rev (dropWhile is_js_whitespace (rev (dropWhile is_js_whitespace s)))"

text \<open>
  \<^verbatim>\<open>message.conversation || message.extendedTextMessage?.text || message.imageMessage?.caption
  || message.videoMessage?.caption || ""\<close>.
\<close>

definition message_text :: "WAMessageContent \<Rightarrow> string" where
  "message_text m =
     the (or_else (or_else (or_else (or_else (conversation m) (extendedText m)) (imageCaption m))
                     (videoCaption m)) (Some []))"

text \<open>\<^verbatim>\<open>jid.split("@")[0].split(":")[0]\<close>.\<close>

definition jid_user :: "string \<Rightarrow> string" where
  "jid_user jid = split_first (CHR '':'') (split_first (CHR ''@'') jid)"

text \<open>
  What the handler does to the outside, in order: the group lookup, the read receipt
  (chat, message id, participant) and the call of the registered callback.
\<close>

datatype effect =
    GroupMetadata string
  | ReadMessages string string "string option"
  | Callback InboundMessage

text \<open>
  \<^verbatim>\<open>handleIncomingMessage(userConn, msg, sock)\<close>. The library's \<^verbatim>\<open>isJidGroup\<close>, what
  \<^verbatim>\<open>sock.groupMetadata\<close> gives (a thrown value or the group's subject) and the clock
  \<^verbatim>\<open>Date.now()\<close> are parameters. The result lists the effects in the order they happen;
  whether the read receipt or the callback fails changes nothing, both are caught.
\<close>

definition handleIncomingMessage ::
  "(string \<Rightarrow> bool) \<Rightarrow> (string \<Rightarrow> thrown + string) \<Rightarrow> int \<Rightarrow> manager \<Rightarrow> UserConnection
     \<Rightarrow> WAMessage \<Rightarrow> effect list" where
  "handleIncomingMessage isJidGroup groupMetadata now m userConn msg =
     (let remote = (case key msg of None \<Rightarrow> None | Some k \<Rightarrow> remoteJid k) in
      if \<not> truthy remote then []
      else if endsWith (the remote) ''@status'' \<or> endsWith (the remote) ''@broadcast'' then []
      else if (case key msg of None \<Rightarrow> False | Some k \<Rightarrow> fromMe k = Some True) then []
      else
        (case message msg of
           None \<Rightarrow> []
         | Some content \<Rightarrow>
             (let t = message_text content in
              if js_trim t = [] then []
              else
                (let jid = the remote;
                     isGroup = isJidGroup jid;
                     participantJid = (case key msg of None \<Rightarrow> None | Some k \<Rightarrow> participant k);
                     senderE164 =
                       (if isGroup \<and> truthy participantJid then Some (jid_user (the participantJid))
                        else if \<not> isGroup then Some (jid_user jid)
                        else None);
                     groupSubject =
                       (if isGroup then (case groupMetadata jid of Inl e \<Rightarrow> None | Inr subject \<Rightarrow> Some subject)
                        else None);
                     msgId = (case key msg of None \<Rightarrow> None | Some k \<Rightarrow> key_id k);
                     inboundMessage =
                       \<lparr>im_userId = userId userConn,
                        im_integrationId = ''whatsapp'',
                        im_chatId = jid,
                        im_from = (if truthy senderE164 then the senderE164 else jid),
                        im_text = t,
                        im_timestamp =
                          (case messageTimestamp msg of
                             None \<Rightarrow> now
                           | Some ts \<Rightarrow> if ts \<noteq> 0 then ts * 1000 else now),
                        im_conversationId = Some jid,
                        im_chatType = (if isGroup then Group else Direct),
                        im_senderName = (if truthy (pushName msg) then pushName msg else None),
                        im_senderJid = (if truthy participantJid then participantJid else None),
                        im_groupSubject = groupSubject,
                        im_messageId = msgId\<rparr>
                 in (if isGroup then [GroupMetadata jid] else [])
                    @ (if truthy msgId then [ReadMessages jid (the msgId) participantJid] else [])
                    @ (case onMessageCallback m of
                         None \<Rightarrow> []
                       | Some callback \<Rightarrow> [Callback inboundMessage])))))"

section \<open>Exceptions\<close>

text \<open>
  A computation that may throw is a value of \<open>thrown + 'a\<close>: \<open>Inl e\<close> when \<open>e\<close> was thrown,
  \<open>Inr v\<close> when it returned \<open>v\<close>. \<open>try_catch\<close> is \<^verbatim>\<open>try { body } catch (error) { handler }\<close>.
\<close>

definition try_catch :: "thrown + 'a \<Rightarrow> (thrown \<Rightarrow> thrown + 'a) \<Rightarrow> thrown + 'a" where
  "try_catch body handler = (case body of Inl e \<Rightarrow> handler e | Inr v \<Rightarrow> Inr v)"

text \<open>\<^verbatim>\<open>error instanceof Error ? error.message : fallback\<close>.\<close>

definition message_or :: "thrown \<Rightarrow> string \<Rightarrow> string" where
  "message_or e fallback = (case e of ErrorObj msg \<Rightarrow> msg | OtherThrown \<Rightarrow> fallback)"

section \<open>sendMessage (whatsapp-connection.ts)\<close>

text \<open>The \<^verbatim>\<open>AnyMessageContent\<close> envelopes that \<^verbatim>\<open>sendMessage\<close> builds: a URL and, where allowed, a caption.\<close>

datatype content =
    TextContent string
  | ImageContent string "string option"
  | VideoContent string "string option"
  | AudioContent string
  | DocumentContent string "string option"

text \<open>\<^verbatim>\<open>{ success, messageId?, error? }\<close>.\<close>

record send_result =
  success :: bool
  messageId :: "string option"
  sr_error :: "string option"

text \<open>
  What \<^verbatim>\<open>socket.sendMessage(chatId, content)\<close> does on a given socket is the library's and the
  network's: it rejects with a thrown value, or resolves with a result whose
  \<^verbatim>\<open>key.id\<close> may be absent.
\<close>

type_synonym socket_send = "nat \<Rightarrow> string \<Rightarrow> content \<Rightarrow> thrown + string option"

text \<open>One call of \<^verbatim>\<open>socket.sendMessage\<close>: the socket, the chat and the content.\<close>

type_synonym send_attempt = "nat \<times> string \<times> content"

definition lower_ascii :: "char \<Rightarrow> char" where
  "lower_ascii c = (case map_of (zip ''ABCDEFGHIJKLMNOPQRSTUVWXYZ'' ''abcdefghijklmnopqrstuvwxyz'') c of
       None \<Rightarrow> c | Some d \<Rightarrow> d)"

text \<open>\<^verbatim>\<open>/\.(e1|e2|...)$/i.test(url)\<close>.\<close>

definition has_extension :: "string list \<Rightarrow> string \<Rightarrow> bool" where
  "has_extension exts url = list_ex (\<lambda>e. endsWith (map lower_ascii url) (''.'' @ e)) exts"

text \<open>\<^verbatim>\<open>text || undefined\<close>.\<close>

definition caption_of :: "string \<Rightarrow> string option" where
  "caption_of t = (if t = [] then None else Some t)"

definition build_content :: "string \<Rightarrow> string option \<Rightarrow> content" where
  "build_content t mediaUrl =
     (if truthy mediaUrl then
        (let url = the mediaUrl;
             isImage = has_extension [''jpg'', ''jpeg'', ''png'', ''gif'', ''webp''] url;
             isVideo = has_extension [''mp4'', ''mov'', ''avi'', ''mkv'', ''webm''] url;
             isAudio = has_extension [''mp3'', ''wav'', ''ogg'', ''m4a'', ''opus''] url
         in if isImage then ImageContent url (caption_of t)
            else if isVideo then VideoContent url (caption_of t)
            else if isAudio then AudioContent url
            else DocumentContent url (caption_of t))
      else TextContent t)"

definition status_string :: "conn_status \<Rightarrow> string" where
  "status_string s = (case s of Connecting \<Rightarrow> ''connecting'' | Connected \<Rightarrow> ''connected''
       | Disconnected \<Rightarrow> ''disconnected'' | Failed \<Rightarrow> ''error'')"

text \<open>
  \<^verbatim>\<open>sendMessage(userId, chatId, text, mediaUrl?)\<close>: what the call returns or throws, and the
  calls of \<^verbatim>\<open>socket.sendMessage\<close> it made.
\<close>

definition sendMessage ::
  "socket_send \<Rightarrow> manager \<Rightarrow> string \<Rightarrow> string \<Rightarrow> string \<Rightarrow> string option
     \<Rightarrow> (thrown + send_result) \<times> send_attempt list" where
  "sendMessage send m uid chatId t mediaUrl =
     (case connections_get m uid of
        None \<Rightarrow> (Inr \<lparr>success = False, messageId = None, sr_error = Some ''User not connected''\<rparr>, [])
      | Some userConn \<Rightarrow>
          (case socket userConn of
             None \<Rightarrow> (Inr \<lparr>success = False, messageId = None, sr_error = Some ''User not connected''\<rparr>, [])
           | Some sock \<Rightarrow>
               if status userConn \<noteq> Connected then
                 (Inr \<lparr>success = False, messageId = None,
                       sr_error = Some (''Connection status: '' @ status_string (status userConn))\<rparr>, [])
               else
                 (let content = build_content t mediaUrl in
                  (try_catch
                     (case send sock chatId content of
                        Inl e \<Rightarrow> Inl e
                      | Inr result_id \<Rightarrow> Inr \<lparr>success = True, messageId = result_id, sr_error = None\<rparr>)
                     (\<lambda>e. Inr \<lparr>success = False, messageId = None,
                                sr_error = Some (message_or e ''Send failed'')\<rparr>),
                   [(sock, chatId, content)]))))"

section \<open>The HTTP endpoint /raccoonai/send\<close>

text \<open>\<^verbatim>\<open>type OutboundPayload\<close>: a field the JSON body leaves out is \<open>None\<close>.\<close>

record media_item =
  url :: string
  mimeType :: "string option"
  filename :: "string option"

record OutboundPayload =
  op_integrationId :: "string option"
  op_chatId :: "string option"
  op_text :: "string option"
  op_userId :: "string option"
  op_media :: "media_item list option"

text \<open>
  A request: its method, and what reading the body and \<^verbatim>\<open>JSON.parse\<close> gave, a payload or
  a thrown value (a stream error, a syntax error, a body that is not an object).
\<close>

record http_request =
  req_method :: string
  req_payload :: "thrown + OutboundPayload"

text \<open>The status of \<^verbatim>\<open>res.writeHead\<close> and the object whose JSON \<^verbatim>\<open>res.end\<close> sends.\<close>

record http_response =
  res_status :: nat
  res_body :: send_result

definition failure :: "string \<Rightarrow> send_result" where
  "failure msg = \<lparr>success = False, messageId = None, sr_error = Some msg\<rparr>"

text \<open>The lookup of the user when the payload names none: a user id or the response that ends the request.\<close>

definition resolve_user :: "manager \<Rightarrow> OutboundPayload \<Rightarrow> http_response + string" where
  "resolve_user m payload =
     (if truthy (op_userId payload) then Inr (the (op_userId payload))
      else (let connectedUsers = getConnectedUserIds m in
            if length connectedUsers = 1 then Inr (connectedUsers ! 0)
            else if length connectedUsers = 0 then
              Inl \<lparr>res_status = 500, res_body = failure ''No WhatsApp connections available''\<rparr>
            else Inl \<lparr>res_status = 400, res_body = failure ''Multiple users connected, userId required''\<rparr>))"

definition first_media_url :: "OutboundPayload \<Rightarrow> string option" where
  "first_media_url payload =
     (case op_media payload of None \<Rightarrow> None | Some [] \<Rightarrow> None | Some (item # _) \<Rightarrow> Some (url item))"

definition handler :: "socket_send \<Rightarrow> manager \<Rightarrow> http_request \<Rightarrow> http_response \<times> send_attempt list" where
  "handler send m req =
     (if req_method req \<noteq> ''POST'' then
        (\<lparr>res_status = 405, res_body = failure ''Method not allowed''\<rparr>, [])
      else
        (case req_payload req of
           Inl e \<Rightarrow> (\<lparr>res_status = 500, res_body = failure (message_or e ''Internal error'')\<rparr>, [])
         | Inr payload \<Rightarrow>
             if \<not> truthy (op_integrationId payload) \<or> \<not> truthy (op_chatId payload)
                \<or> \<not> truthy (op_text payload) then
               (\<lparr>res_status = 400,
                 res_body = failure ''Missing required fields: integrationId, chatId, text''\<rparr>, [])
             else
               (case resolve_user m payload of
                  Inl response \<Rightarrow> (response, [])
                | Inr uid \<Rightarrow>
                    if op_integrationId payload = Some ''whatsapp'' then
                      (case sendMessage send m uid (the (op_chatId payload)) (the (op_text payload))
                              (first_media_url payload) of
                         (Inl e, attempts) \<Rightarrow>
                           (\<lparr>res_status = 500, res_body = failure (message_or e ''Internal error'')\<rparr>,
                            attempts)
                       | (Inr result, attempts) \<Rightarrow>
                           (\<lparr>res_status = (if success result then 200 else 500), res_body = result\<rparr>,
                            attempts))
                    else
                      (\<lparr>res_status = 400,
                        res_body = failure (''Integration '' @ the (op_integrationId payload)
                                             @ '' not supported'')\<rparr>, []))))"

section \<open>The forwarder (bridge.ts)\<close>

text \<open>The decimal digits of a number, as a template literal prints a non-negative integer.\<close>

fun show_nat :: "nat \<Rightarrow> string" where
  "show_nat n = (if n < 10 then [''0123456789'' ! n]
                 else show_nat (n div 10) @ [''0123456789'' ! (n mod 10)])"

declare show_nat.simps [simp del]

text \<open>\<^verbatim>\<open>type RaccoonAIBridgeConfig\<close>, the value of the module variable \<^verbatim>\<open>bridgeConfig\<close>.\<close>

record RaccoonAIBridgeConfig =
  webhookUrl :: "string option"
  raccoonApiUrl :: "string option"
  enabled :: "bool option"

text \<open>\<^verbatim>\<open>type InboundPayload\<close>, its \<^verbatim>\<open>metadata\<close> fields inlined.\<close>

record InboundPayload =
  ip_userId :: string
  ip_integrationId :: string
  ip_chatId :: string
  ip_from :: string
  ip_text :: string
  ip_media :: "string list option"
  ip_timestamp :: int
  ip_conversationId :: "string option"
  ip_chatType :: "string option"
  ip_senderName :: "string option"

text \<open>The object the webhook's JSON body parses to; every field may be absent.\<close>

record webhook_ack =
  ack_success :: "bool option"
  ack_sessionId :: "string option"
  ack_sessionUrl :: "string option"
  ack_error :: "string option"

text \<open>
  A \<^verbatim>\<open>Response\<close>: its status, what \<^verbatim>\<open>text()\<close> resolves to (\<open>None\<close> when it rejects), and
  what reading the fields of \<^verbatim>\<open>await response.json()\<close> gives: the typed object, or a
  thrown value when \<^verbatim>\<open>json()\<close> rejects or resolves to \<^verbatim>\<open>null\<close>.
\<close>

record 'a fetch_response =
  resp_status :: nat
  resp_text :: "string option"
  resp_json :: "thrown + 'a"

text \<open>\<^verbatim>\<open>response.ok\<close>: the status is in the range 200 to 299.\<close>

definition resp_ok :: "'a fetch_response \<Rightarrow> bool" where
  "resp_ok response = (200 \<le> resp_status response \<and> resp_status response \<le> 299)"

text \<open>\<^verbatim>\<open>fetch(url, {method: "POST", body})\<close>: rejects with a thrown value or resolves with a response.\<close>

type_synonym fetch_post = "string \<Rightarrow> InboundPayload \<Rightarrow> thrown + webhook_ack fetch_response"

record forward_result =
  fr_success :: bool
  fr_sessionId :: "string option"
  fr_sessionUrl :: "string option"
  fr_error :: "string option"

definition forward_failure :: "string \<Rightarrow> forward_result" where
  "forward_failure msg = \<lparr>fr_success = False, fr_sessionId = None, fr_sessionUrl = None,
                           fr_error = Some msg\<rparr>"

text \<open>
  \<^verbatim>\<open>forwardToRaccoonAI(payload)\<close> under the configuration \<open>config\<close>: what the call returns or
  throws, and the requests it made.
\<close>

definition forwardToRaccoonAI ::
  "RaccoonAIBridgeConfig \<Rightarrow> fetch_post \<Rightarrow> InboundPayload
     \<Rightarrow> (thrown + forward_result) \<times> (string \<times> InboundPayload) list" where
  "forwardToRaccoonAI config fetch payload =
     (if enabled config \<noteq> Some True then (Inr (forward_failure ''Bridge is disabled''), [])
      else if \<not> truthy (webhookUrl config) then
        (Inr (forward_failure ''No webhook URL configured''), [])
      else
        (try_catch
           (case fetch (the (webhookUrl config)) payload of
              Inl e \<Rightarrow> Inl e
            | Inr response \<Rightarrow>
                if \<not> resp_ok response then
                  (let errorText = (case resp_text response of None \<Rightarrow> ''Unknown error'' | Some b \<Rightarrow> b)
                   in Inr (forward_failure
                             (''HTTP '' @ show_nat (resp_status response) @ '': '' @ errorText)))
                else
                  (case resp_json response of
                     Inl e \<Rightarrow> Inl e
                   | Inr result \<Rightarrow>
                       Inr \<lparr>fr_success = (case ack_success result of None \<Rightarrow> True | Some b \<Rightarrow> b),
                            fr_sessionId = ack_sessionId result,
                            fr_sessionUrl = ack_sessionUrl result,
                            fr_error = ack_error result\<rparr>))
           (\<lambda>e. Inr (forward_failure (message_or e ''Failed to forward message''))),
         [(the (webhookUrl config), payload)]))"

section \<open>JSON values\<close>

text \<open>
  The values that \<^verbatim>\<open>JSON.parse\<close> produces; numbers are restricted to integers, and an
  object lists its properties in the order \<^verbatim>\<open>Object.entries\<close> yields them.
\<close>

datatype json =
    JNull
  | JBool bool
  | JNum int
  | JStr string
  | JArr "json list"
  | JObj "(string \<times> json) list"

text \<open>Truthiness of a value that may be \<^verbatim>\<open>undefined\<close> (\<open>None\<close>).\<close>

definition js_truthy :: "json option \<Rightarrow> bool" where
  "js_truthy v = (case v of None \<Rightarrow> False | Some JNull \<Rightarrow> False | Some (JBool b) \<Rightarrow> b
      | Some (JNum n) \<Rightarrow> n \<noteq> 0 | Some (JStr s) \<Rightarrow> s \<noteq> [] | Some _ \<Rightarrow> True)"

text \<open>A \<^verbatim>\<open>TypeError\<close>; its message is the engine's.\<close>

definition type_error :: thrown where
  "type_error = ErrorObj ''TypeError''"

text \<open>A \<^verbatim>\<open>SyntaxError\<close> of \<^verbatim>\<open>JSON.parse\<close>.\<close>

definition syntax_error :: thrown where
  "syntax_error = ErrorObj ''SyntaxError''"

text \<open>
  \<^verbatim>\<open>v.name\<close> for the property names the code reads (\<^verbatim>\<open>registered\<close>, \<^verbatim>\<open>me\<close>, \<^verbatim>\<open>id\<close>), none
  of which a string, number, boolean or array has: reading from \<^verbatim>\<open>null\<close> throws, an
  object gives its own property, every other value gives \<^verbatim>\<open>undefined\<close>.
\<close>

definition get_prop :: "json \<Rightarrow> string \<Rightarrow> thrown + json option" where
  "get_prop v name = (case v of JNull \<Rightarrow> Inl type_error | JObj kvs \<Rightarrow> Inr (map_of kvs name)
      | _ \<Rightarrow> Inr None)"

text \<open>\<^verbatim>\<open>v?.name\<close>, where \<open>v\<close> may be \<^verbatim>\<open>undefined\<close>.\<close>

definition opt_prop :: "json option \<Rightarrow> string \<Rightarrow> json option" where
  "opt_prop v name = (case v of Some (JObj kvs) \<Rightarrow> map_of kvs name | _ \<Rightarrow> None)"

text \<open>
  \<^verbatim>\<open>v.name = x\<close> in strict code (the file is a module): an object gets or replaces the
  property, an array gets a property that is not part of its JSON, and assigning to a
  property of a primitive value throws.
\<close>

definition set_prop :: "json \<Rightarrow> string \<Rightarrow> json \<Rightarrow> thrown + json" where
  "set_prop v name x = (case v of JObj kvs \<Rightarrow> Inr (JObj (AList.update name x kvs))
      | JArr xs \<Rightarrow> Inr (JArr xs) | _ \<Rightarrow> Inl type_error)"

section \<open>The credential store (writeCredentials)\<close>

text \<open>
  What the code takes from Node: the home directory, \<^verbatim>\<open>path.join\<close>,
  \<^verbatim>\<open>JSON.stringify(v, null, 2)\<close>, \<^verbatim>\<open>JSON.parse\<close> (\<open>None\<close> for a syntax error), and for
  each path whether \<^verbatim>\<open>mkdirSync\<close>, \<^verbatim>\<open>writeFileSync\<close> and \<^verbatim>\<open>readFileSync\<close> throw there.
\<close>

record js_env =
  homedir :: string
  path_join :: "string list \<Rightarrow> string"
  stringify :: "json \<Rightarrow> string"
  parse :: "string \<Rightarrow> json option"
  mkdir_fails :: "string \<Rightarrow> thrown option"
  write_fails :: "string \<Rightarrow> thrown option"
  read_fails :: "string \<Rightarrow> thrown option"

type_synonym file_system = "string \<rightharpoonup> string"

definition getBaseAuthDir :: "js_env \<Rightarrow> string" where
  "getBaseAuthDir env = path_join env [homedir env, ''.clawdbot'', ''credentials'', ''whatsapp'']"

definition getAuthDir :: "js_env \<Rightarrow> string \<Rightarrow> string" where
  "getAuthDir env uid = path_join env [getBaseAuthDir env, ''raccoon-'' @ uid]"

text \<open>
  The loop over \<^verbatim>\<open>Object.entries(credentials)\<close>: the files after it, and the value thrown
  by the write that stopped it, if one did.
\<close>

fun write_entries ::
  "js_env \<Rightarrow> string \<Rightarrow> (string \<times> json) list \<Rightarrow> file_system \<Rightarrow> file_system \<times> thrown option" where
  "write_entries env dir [] fs = (fs, None)"
| "write_entries env dir ((k, v) # rest) fs =
     (if v \<noteq> JNull then
        (let filePath = path_join env [dir, k @ ''.json''] in
         case write_fails env filePath of
           Some e \<Rightarrow> (fs, Some e)
         | None \<Rightarrow> write_entries env dir rest (fs(filePath \<mapsto> stringify env v)))
      else write_entries env dir rest fs)"

text \<open>The body of the \<^verbatim>\<open>try\<close> block that sets \<^verbatim>\<open>registered\<close>, for a file \<open>credsPath\<close> holding \<open>txt\<close>.\<close>

definition patch_registered :: "js_env \<Rightarrow> string \<Rightarrow> string \<Rightarrow> file_system \<Rightarrow> thrown + file_system" where
  "patch_registered env credsPath txt fs =
     (case read_fails env credsPath of
        Some e \<Rightarrow> Inl e
      | None \<Rightarrow>
          (case parse env txt of
             None \<Rightarrow> Inl syntax_error
           | Some creds \<Rightarrow>
               (case get_prop creds ''registered'' of
                  Inl e \<Rightarrow> Inl e
                | Inr registered \<Rightarrow>
                    if \<not> js_truthy registered then
                      (case set_prop creds ''registered'' (JBool True) of
                         Inl e \<Rightarrow> Inl e
                       | Inr creds' \<Rightarrow>
                           (case write_fails env credsPath of
                              Some e \<Rightarrow> Inl e
                            | None \<Rightarrow> Inr (fs(credsPath \<mapsto> stringify env creds'))))
                    else Inr fs)))"

text \<open>\<^verbatim>\<open>if (fs.existsSync(credsPath)) { try { ... } catch { } }\<close>.\<close>

definition ensure_registered :: "js_env \<Rightarrow> string \<Rightarrow> file_system \<Rightarrow> file_system" where
  "ensure_registered env dir fs =
     (let credsPath = path_join env [dir, ''creds.json''] in
      case fs credsPath of
        None \<Rightarrow> fs
      | Some txt \<Rightarrow> (case patch_registered env credsPath txt fs of Inl e \<Rightarrow> fs | Inr fs' \<Rightarrow> fs'))"

text \<open>
  \<^verbatim>\<open>writeCredentials(userId, credentials)\<close>: the files afterwards, and the directory it
  returns or the value it throws.
\<close>

definition writeCredentials ::
  "js_env \<Rightarrow> string \<Rightarrow> (string \<times> json) list \<Rightarrow> file_system \<Rightarrow> file_system \<times> (thrown + string)" where
  "writeCredentials env uid credentials fs =
     (let dir = getAuthDir env uid in
      case mkdir_fails env dir of
        Some e \<Rightarrow> (fs, Inl e)
      | None \<Rightarrow>
          (case write_entries env dir credentials fs of
             (fs', Some e) \<Rightarrow> (fs', Inl e)
           | (fs', None) \<Rightarrow> (ensure_registered env dir fs', Inr dir)))"

text \<open>\<^verbatim>\<open>metadata?: { phone?: string; displayName?: string }\<close>.\<close>

record integration_metadata =
  md_phone :: "string option"
  md_displayName :: "string option"

text \<open>
  \<^verbatim>\<open>extractPhone(credentials, metadata)\<close>; \<^verbatim>\<open>split\<close> exists on strings only, so a truthy
  \<^verbatim>\<open>creds.me.id\<close> that is not a string throws.
\<close>

definition extractPhone ::
  "(string \<times> json) list \<Rightarrow> integration_metadata option \<Rightarrow> thrown + string option" where
  "extractPhone credentials metadata =
     (if truthy (case metadata of None \<Rightarrow> None | Some md \<Rightarrow> md_phone md) then
        Inr (md_phone (the metadata))
      else
        (let creds = map_of credentials ''creds'';
             ident = opt_prop (opt_prop creds ''me'') ''id''
         in if js_truthy ident then
              (case ident of Some (JStr s) \<Rightarrow> Inr (Some (jid_user s)) | _ \<Rightarrow> Inl type_error)
            else Inr None))"

section \<open>Sessions: sockets, connection updates, reconnect timers\<close>

text \<open>The members of the library's \<^verbatim>\<open>DisconnectReason\<close> that the code compares with.\<close>

record DisconnectReason =
  restartRequired :: int
  connectionReplaced :: int
  loggedOut :: int

text \<open>
  A \<^verbatim>\<open>connection.update\<close> event: \<^verbatim>\<open>connection === "open"\<close> with \<^verbatim>\<open>sock.user?.id\<close>,
  \<^verbatim>\<open>connection === "close"\<close> with the status code of \<^verbatim>\<open>lastDisconnect\<close> (\<open>None\<close> when
  it is \<^verbatim>\<open>undefined\<close>), or any other update.
\<close>

datatype connection_update = ConnOpen "string option" | ConnClose "int option" | ConnOther

definition show_int :: "int \<Rightarrow> string" where
  "show_int i = (if i < 0 then ''-'' @ show_nat (nat (- i)) else show_nat (nat i))"

text \<open>\<^verbatim>\<open>`disconnect_${statusCode}`\<close>.\<close>

definition disconnect_error :: "int option \<Rightarrow> string" where
  "disconnect_error code = ''disconnect_'' @ (case code of None \<Rightarrow> ''undefined'' | Some c \<Rightarrow> show_int c)"

text \<open>
  The \<^verbatim>\<open>connection.update\<close> handler on the object it closes over, at time \<open>now\<close>: the
  object afterwards, and whether \<^verbatim>\<open>setTimeout\<close> was called.
\<close>

definition on_connection_update ::
  "DisconnectReason \<Rightarrow> int \<Rightarrow> connection_update \<Rightarrow> UserConnection \<Rightarrow> UserConnection \<times> bool" where
  "on_connection_update dr now update userConn =
     (case update of
        ConnOpen user_id \<Rightarrow>
          (userConn\<lparr>status := Connected, lastConnectedAt := Some now, reconnectAttempts := 0,
                     error := None,
                     phone := (if truthy user_id then Some (jid_user (the user_id)) else phone userConn)\<rparr>,
           False)
      | ConnClose statusCode \<Rightarrow>
          (let shouldReconnect =
                 (statusCode = Some (restartRequired dr) \<or> statusCode = Some 515
                  \<or> statusCode = Some (connectionReplaced dr))
           in if shouldReconnect \<and> reconnectAttempts userConn < 3 \<and> status userConn \<noteq> Failed then
                (userConn\<lparr>reconnectAttempts := reconnectAttempts userConn + 1, status := Connecting\<rparr>,
                 True)
              else if statusCode = Some (loggedOut dr) then
                (userConn\<lparr>status := Failed, error := Some ''logged_out''\<rparr>, False)
              else
                (userConn\<lparr>status := Disconnected, error := Some (disconnect_error statusCode)\<rparr>,
                 False))
      | ConnOther \<Rightarrow> (userConn, False))"

text \<open>
  \<^verbatim>\<open>createSocket(userConn)\<close> for the object at reference \<open>r\<close>. \<open>lib\<close> is what the library
  calls before the first assignment do (\<^verbatim>\<open>useMultiFileAuthState\<close>,
  \<^verbatim>\<open>fetchLatestBaileysVersion\<close>, \<^verbatim>\<open>makeWASocket\<close>): \<open>Some e\<close> when one of them throws \<open>e\<close>.
  Otherwise a new socket exists, its handlers close over the object, and the object's
  \<^verbatim>\<open>socket\<close> and \<^verbatim>\<open>status\<close> are assigned.
\<close>

definition createSocket :: "thrown option \<Rightarrow> nat \<Rightarrow> manager \<Rightarrow> manager \<times> thrown option" where
  "createSocket lib r m =
     (case lib of
        Some e \<Rightarrow> (m, Some e)
      | None \<Rightarrow>
          (let sock = length (sockets m) in
           (m\<lparr>sockets := sockets m @ [r],
              objs := (objs m)[r := (objs m ! r)\<lparr>socket := Some sock, status := Connecting\<rparr>]\<rparr>,
            None)))"

text \<open>
  A \<^verbatim>\<open>connection.update\<close> event on socket \<open>sock\<close>: its handler runs on the object the
  socket was created for; a reconnect adds a timer for that object.
\<close>

definition connection_update_event ::
  "DisconnectReason \<Rightarrow> nat \<Rightarrow> int \<Rightarrow> connection_update \<Rightarrow> manager \<Rightarrow> manager" where
  "connection_update_event dr sock now update m =
     (if sock < length (sockets m) then
        (let r = sockets m ! sock;
             (userConn, timer) = on_connection_update dr now update (objs m ! r)
         in m\<lparr>objs := (objs m)[r := userConn],
              timers := timers m @ (if timer then [r] else [])\<rparr>)
      else m)"

text \<open>
  The \<open>i\<close>-th pending timer fires: \<^verbatim>\<open>() => this.createSocket(userConn)\<close>. Nothing awaits
  the promise, so a thrown value is only reported.
\<close>

definition timer_fired :: "thrown option \<Rightarrow> nat \<Rightarrow> manager \<Rightarrow> manager \<times> thrown option" where
  "timer_fired lib i m =
     (if i < length (timers m) then
        createSocket lib (timers m ! i) (m\<lparr>timers := take i (timers m) @ drop (Suc i) (timers m)\<rparr>)
      else (m, None))"

text \<open>\<^verbatim>\<open>disconnectUser(userId)\<close>: \<^verbatim>\<open>socket.end\<close> if there is a socket, then \<^verbatim>\<open>connections.delete\<close>.\<close>

definition disconnectUser :: "string \<Rightarrow> manager \<Rightarrow> manager" where
  "disconnectUser uid m =
     (let m1 = (case connections_get m uid of
                  None \<Rightarrow> m
                | Some userConn \<Rightarrow>
                    (case socket userConn of None \<Rightarrow> m | Some sock \<Rightarrow> m\<lparr>ended := ended m @ [sock]\<rparr>))
      in m1\<lparr>connections := filter (\<lambda>(k, r). k \<noteq> uid) (connections m1)\<rparr>)"

text \<open>
  \<^verbatim>\<open>connectUser(userId, credentials, metadata)\<close>: the manager afterwards and the value the
  call throws, if any. \<^verbatim>\<open>connections.set\<close> replaces the entry of an existing key in place
  and appends a new key.
\<close>

definition connectUser ::
  "js_env \<Rightarrow> thrown option \<Rightarrow> string \<Rightarrow> (string \<times> json) list \<Rightarrow> integration_metadata option
     \<Rightarrow> manager \<Rightarrow> manager \<times> thrown option" where
  "connectUser env lib uid credentials metadata m =
     (if (case connections_get m uid of None \<Rightarrow> False | Some existing \<Rightarrow> status existing = Connected)
      then (m, None)
      else
        (case writeCredentials env uid credentials (files m) of
           (fs, Inl e) \<Rightarrow> (m\<lparr>files := fs\<rparr>, Some e)
         | (fs, Inr dir) \<Rightarrow>
             (case extractPhone credentials metadata of
                Inl e \<Rightarrow> (m\<lparr>files := fs\<rparr>, Some e)
              | Inr ph \<Rightarrow>
                  (let r = length (objs m);
                       userConn = \<lparr>userId = uid, socket = None, authDir = dir, status = Connecting,
                                   phone = ph, error = None, lastConnectedAt = None,
                                   reconnectAttempts = 0\<rparr>
                   in createSocket lib r
                        (m\<lparr>files := fs, objs := objs m @ [userConn],
                           connections := AList.update uid r (connections m)\<rparr>)))))"

section \<open>initialize and shutdown\<close>

text \<open>An element of the \<^verbatim>\<open>integrations\<close> array; \<^verbatim>\<open>credentials\<close> is \<open>None\<close> when it is missing or \<^verbatim>\<open>null\<close>.\<close>

record integration =
  int_userId :: string
  int_integrationId :: string
  int_credentials :: "(string \<times> json) list option"
  int_metadata :: "integration_metadata option"

text \<open>
  \<^verbatim>\<open>fetch(url)\<close> of the integrations listing; the body's \<^verbatim>\<open>integrations\<close> field may be
  absent.
\<close>

type_synonym fetch_get = "string \<Rightarrow> thrown + integration list option fetch_response"

text \<open>\<^verbatim>\<open>fetchIntegrations()\<close>: the list it returns and the URLs it requested.\<close>

definition fetchIntegrations :: "fetch_get \<Rightarrow> manager \<Rightarrow> integration list \<times> string list" where
  "fetchIntegrations fetch m =
     (if \<not> truthy (apiUrl m) then ([], [])
      else
        (let u = the (apiUrl m) @ ''/i/moltbot/integrations'' in
         (case try_catch
                 (case fetch u of
                    Inl e \<Rightarrow> Inl e
                  | Inr response \<Rightarrow>
                      if \<not> resp_ok response then Inr []
                      else (case resp_json response of
                              Inl e \<Rightarrow> Inl e
                            | Inr integrations \<Rightarrow>
                                Inr (case integrations of None \<Rightarrow> [] | Some l \<Rightarrow> l)))
                 (\<lambda>e. Inr [])
          of Inl e \<Rightarrow> [] | Inr l \<Rightarrow> l,
          [u])))"

text \<open>
  The loop of \<^verbatim>\<open>initialize\<close>: \<^verbatim>\<open>connectUser\<close> for each integration, a thrown value caught
  and logged. \<open>libs i\<close> is what the library does when the socket of the \<open>i\<close>-th integration
  is created.
\<close>

fun connect_all ::
  "js_env \<Rightarrow> (nat \<Rightarrow> thrown option) \<Rightarrow> nat \<Rightarrow> integration list \<Rightarrow> manager \<Rightarrow> manager" where
  "connect_all env libs i [] m = m"
| "connect_all env libs i (x # xs) m =
     connect_all env libs (Suc i) xs
       (fst (connectUser env (libs i) (int_userId x) (the (int_credentials x)) (int_metadata x) m))"

text \<open>\<^verbatim>\<open>initialize()\<close>: the manager afterwards and the URLs requested.\<close>

definition initialize ::
  "js_env \<Rightarrow> fetch_get \<Rightarrow> (nat \<Rightarrow> thrown option) \<Rightarrow> manager \<Rightarrow> manager \<times> string list" where
  "initialize env fetch libs m =
     (if isInitialized m then (m, [])
      else
        (let (integrations, requests) = fetchIntegrations fetch m;
             whatsappIntegrations =
               filter (\<lambda>i. int_integrationId i = ''whatsapp'' \<and> int_credentials i \<noteq> None) integrations
         in ((connect_all env libs 0 whatsappIntegrations m)\<lparr>isInitialized := True\<rparr>, requests)))"

text \<open>\<^verbatim>\<open>shutdown()\<close>: \<^verbatim>\<open>disconnectUser\<close> for every key of the map, then the flag is reset.\<close>

definition shutdown :: "manager \<Rightarrow> manager" where
  "shutdown m = (foldl (\<lambda>m' uid. disconnectUser uid m') m (map fst (connections m)))\<lparr>isInitialized := False\<rparr>"

section \<open>Runs of the manager\<close>

text \<open>
  What can change a manager's fields: a call of one of its methods, a
  \<^verbatim>\<open>connection.update\<close> event on one of its sockets, a timer that fires. Each carries what
  the outside world does during it. (The handlers of \<^verbatim>\<open>messages.upsert\<close> and
  \<^verbatim>\<open>creds.update\<close> assign no field of the manager or of a \<^verbatim>\<open>UserConnection\<close>.)
\<close>

datatype event =
    Connect string "(string \<times> json) list" "integration_metadata option" "thrown option"
  | Disconnect string
  | Update nat int connection_update
  | Timer nat "thrown option"
  | Initialize fetch_get "nat \<Rightarrow> thrown option"
  | Shutdown

definition step :: "js_env \<Rightarrow> DisconnectReason \<Rightarrow> manager \<Rightarrow> event \<Rightarrow> manager" where
  "step env dr m ev =
     (case ev of
        Connect uid credentials metadata lib \<Rightarrow> fst (connectUser env lib uid credentials metadata m)
      | Disconnect uid \<Rightarrow> disconnectUser uid m
      | Update sock now update \<Rightarrow> connection_update_event dr sock now update m
      | Timer i lib \<Rightarrow> fst (timer_fired lib i m)
      | Initialize fetch libs \<Rightarrow> fst (initialize env fetch libs m)
      | Shutdown \<Rightarrow> shutdown m)"

definition run :: "js_env \<Rightarrow> DisconnectReason \<Rightarrow> manager \<Rightarrow> event list \<Rightarrow> manager" where
  "run env dr m evs = foldl (step env dr) m evs"

text \<open>The manager as the module creates it.\<close>

definition new_manager :: manager where
  "new_manager = \<lparr>objs = [], connections = [], onMessageCallback = None, apiUrl = None,
                   isInitialized = False, sockets = [], timers = [], ended = [], files = Map.empty\<rparr>"

section \<open>Properties of states\<close>

text \<open>Every \<^verbatim>\<open>UserConnection\<close> object ever created has its counter between 0 and 3.\<close>

definition attempts_ok :: "manager \<Rightarrow> bool" where
  "attempts_ok m = (\<forall>c \<in> set (objs m). 0 \<le> reconnectAttempts c \<and> reconnectAttempts c \<le> 3)"

section \<open>Example states\<close>

definition example_conn :: "string \<Rightarrow> string option \<Rightarrow> conn_status \<Rightarrow> UserConnection" where
  "example_conn u ph st = \<lparr>userId = u, socket = None, authDir = ''/auth/raccoon-'' @ u, status = st,
      phone = ph, error = None, lastConnectedAt = None, reconnectAttempts = 0\<rparr>"

text \<open>Two sessions without sockets: alice (disconnected) inserted before bob (connected).\<close>

definition two_users :: manager where
  "two_users = \<lparr>objs = [example_conn ''alice'' (Some ''5551234567'') Disconnected,
                         example_conn ''bob'' (Some ''442071838750'') Connected],
     connections = [(''alice'', 0), (''bob'', 1)], onMessageCallback = None, apiUrl = None,
     isInitialized = False, sockets = [], timers = [], ended = [], files = Map.empty\<rparr>"

text \<open>One connected session with an open socket.\<close>

definition one_connected :: manager where
  "one_connected = \<lparr>objs = [(example_conn ''carol'' (Some ''15550001111'') Connected)\<lparr>socket := Some 0\<rparr>],
     connections = [(''carol'', 0)], onMessageCallback = None, apiUrl = None,
     isInitialized = True, sockets = [0], timers = [], ended = [], files = Map.empty\<rparr>"

text \<open>A socket whose send rejects, and one whose send resolves with a message id.\<close>

definition failing_send :: socket_send where
  "failing_send sock chatId c = Inl (ErrorObj ''Connection Closed'')"

definition ok_send :: socket_send where
  "ok_send sock chatId c = Inr (Some ''3EB0A1'')"

text \<open>The request of the spec's example: no \<^verbatim>\<open>userId\<close>, no media.\<close>

definition hi_payload :: OutboundPayload where
  "hi_payload = \<lparr>op_integrationId = Some ''whatsapp'', op_chatId = Some ''123@x'',
                   op_text = Some ''hi'', op_userId = None, op_media = None\<rparr>"

definition hi_request :: http_request where
  "hi_request = \<lparr>req_method = ''POST'', req_payload = Inr hi_payload\<rparr>"

text \<open>A configured bridge, an inbound payload, and a webhook that answers 500 with the body \<^verbatim>\<open>oops\<close>.\<close>

definition example_config :: RaccoonAIBridgeConfig where
  "example_config = \<lparr>webhookUrl = Some ''https://hook.test/in'', raccoonApiUrl = None,
                       enabled = Some True\<rparr>"

definition example_payload :: InboundPayload where
  "example_payload = \<lparr>ip_userId = ''carol'', ip_integrationId = ''whatsapp'', ip_chatId = ''123@x'',
     ip_from = ''123'', ip_text = ''hello'', ip_media = None, ip_timestamp = 1700000000000,
     ip_conversationId = Some ''123@x'', ip_chatType = Some ''direct'', ip_senderName = None\<rparr>"

definition oops_fetch :: fetch_post where
  "oops_fetch u body = Inr \<lparr>resp_status = 500, resp_text = Some ''oops'',
                             resp_json = Inl (ErrorObj ''Unexpected token o in JSON'')\<rparr>"

text \<open>
  A session with a registered callback, the library's group test, and a direct message
  with a given text.
\<close>

definition listening :: manager where
  "listening = one_connected\<lparr>onMessageCallback := Some (\<lambda>im. None)\<rparr>"

definition is_group_jid :: "string \<Rightarrow> bool" where
  "is_group_jid jid = endsWith jid ''@g.us''"

definition direct_msg :: "string \<Rightarrow> WAMessage" where
  "direct_msg t =
     \<lparr>key = Some \<lparr>remoteJid = Some ''15550002222:3@s.whatsapp.net'', fromMe = Some False,
                   participant = None, key_id = Some ''A2''\<rparr>,
      message = Some \<lparr>conversation = Some t, extendedText = None, imageCaption = None,
                       videoCaption = None\<rparr>,
      messageTimestamp = Some 1700000000, pushName = Some ''Dan''\<rparr>"

text \<open>
  A session whose stored phone is the empty string, as \<^verbatim>\<open>extractPhone\<close> gives it for an
  identity that starts with the separator.
\<close>

definition blank_phone :: manager where
  "blank_phone = \<lparr>objs = [(example_conn ''dave'' (Some '''') Connecting)\<lparr>socket := Some 0\<rparr>],
     connections = [(''dave'', 0)], onMessageCallback = None, apiUrl = None,
     isInitialized = True, sockets = [0], timers = [], ended = [], files = Map.empty\<rparr>"

text \<open>
  An environment for the examples: \<^verbatim>\<open>path.join\<close> on plain segments, no failing file
  operation, and \<^verbatim>\<open>JSON.stringify(v, null, 2)\<close> and \<^verbatim>\<open>JSON.parse\<close> given on the three
  documents the examples write and read, by their text.
\<close>

fun join_slash :: "string list \<Rightarrow> string" where
  "join_slash [] = ''.''"
| "join_slash [x] = x"
| "join_slash (x # y # ys) = x @ ''/'' @ join_slash (y # ys)"

definition creds_old :: json where
  "creds_old = JObj [(''me'', JObj [(''id'', JStr ''15550001111:2@s.whatsapp.net'')])]"

definition creds_new :: json where
  "creds_new = JObj [(''me'', JObj [(''id'', JStr ''15550001111:2@s.whatsapp.net'')]),
                      (''registered'', JBool True)]"

definition pre_key :: json where
  "pre_key = JObj [(''keyId'', JNum 1)]"

definition creds_old_text :: string where
  \<open>creds_old_text = ''{'' @ [CHR 0x0A] @ ''  "me": {'' @ [CHR 0x0A]
     @ ''    "id": "15550001111:2@s.whatsapp.net"'' @ [CHR 0x0A] @ ''  }'' @ [CHR 0x0A] @ ''}''\<close>

definition creds_new_text :: string where
  \<open>creds_new_text = ''{'' @ [CHR 0x0A] @ ''  "me": {'' @ [CHR 0x0A]
     @ ''    "id": "15550001111:2@s.whatsapp.net"'' @ [CHR 0x0A] @ ''  },'' @ [CHR 0x0A]
     @ ''  "registered": true'' @ [CHR 0x0A] @ ''}''\<close>

definition pre_key_text :: string where
  \<open>pre_key_text = ''{'' @ [CHR 0x0A] @ ''  "keyId": 1'' @ [CHR 0x0A] @ ''}''\<close>

definition example_stringify :: "json \<Rightarrow> string" where
  "example_stringify v =
     (if v = creds_old then creds_old_text else if v = creds_new then creds_new_text
      else if v = pre_key then pre_key_text else ''null'')"

definition example_parse :: "string \<Rightarrow> json option" where
  "example_parse s =
     (if s = creds_old_text then Some creds_old else if s = creds_new_text then Some creds_new
      else if s = pre_key_text then Some pre_key else None)"

definition example_env :: js_env where
  "example_env = \<lparr>homedir = ''/home/bot'', path_join = join_slash, stringify = example_stringify,
     parse = example_parse, mkdir_fails = (\<lambda>p. None), write_fails = (\<lambda>p. None),
     read_fails = (\<lambda>p. None)\<rparr>"

definition carol_dir :: string where
  "carol_dir = ''/home/bot/.clawdbot/credentials/whatsapp/raccoon-carol''"

text \<open>A directory that already holds unregistered credentials, and a credential map with one key file.\<close>

definition example_files :: file_system where
  "example_files = [carol_dir @ ''/creds.json'' \<mapsto> creds_old_text]"

definition example_credentials :: "(string \<times> json) list" where
  "example_credentials = [(''pre-key-1'', pre_key), (''skipped'', JNull)]"

text \<open>The library's constants, as its \<^verbatim>\<open>DisconnectReason\<close> enumeration gives them.\<close>

definition baileys :: DisconnectReason where
  "baileys = \<lparr>restartRequired = 515, connectionReplaced = 440, loggedOut = 401\<rparr>"

text \<open>
  A run: carol connects, the handshake completes, and four qualifying closes follow, the
  first three each followed by its reconnect timer.
\<close>

definition three_reconnects :: "event list" where
  "three_reconnects = [Connect ''carol'' [(''creds'', creds_old)] None None,
     Update 0 1000 (ConnOpen (Some ''15550001111:2@s.whatsapp.net'')),
     Update 0 2000 (ConnClose (Some 515)), Timer 0 None,
     Update 1 3000 (ConnClose (Some 515)), Timer 0 None,
     Update 2 4000 (ConnClose (Some 440)), Timer 0 None,
     Update 3 5000 (ConnClose (Some 515))]"

definition carol_session :: "nat \<Rightarrow> conn_status \<Rightarrow> string option \<Rightarrow> int \<Rightarrow> UserConnection" where
  "carol_session sock st err n = \<lparr>userId = ''carol'', socket = Some sock, authDir = carol_dir,
      status = st, phone = Some ''15550001111'', error = err, lastConnectedAt = Some 1000,
      reconnectAttempts = n\<rparr>"

text \<open>
  A session whose close scheduled a reconnect and which was then disconnected; and the
  same with the timer firing afterwards.
\<close>

definition removed_with_timer :: "event list" where
  "removed_with_timer = [Update 0 2000 (ConnClose (Some 515)), Disconnect ''carol'']"

definition stale_timer :: "event list" where
  "stale_timer = removed_with_timer @ [Timer 0 None]"

text \<open>An integrations endpoint that answers 503, and one that lists carol's credentials.\<close>

definition unavailable :: fetch_get where
  "unavailable u = Inr \<lparr>resp_status = 503, resp_text = Some ''busy'', resp_json = Inl syntax_error\<rparr>"

definition lists_carol :: fetch_get where
  "lists_carol u = Inr \<lparr>resp_status = 200, resp_text = None,
       resp_json = Inr (Some [\<lparr>int_userId = ''carol'', int_integrationId = ''whatsapp'',
                                int_credentials = Some [(''creds'', creds_old)],
                                int_metadata = None\<rparr>])\<rparr>"

definition configured :: manager where
  "configured = new_manager\<lparr>apiUrl := Some ''https://api.test''\<rparr>"

section \<open>Strings\<close>

lemma endsWith_suffix: "endsWith s t \<longleftrightarrow> suffix t s"
proof
  assume "endsWith s t"
  then have "s = take (length s - length t) s @ t"
    by (metis append_take_drop_id endsWith_def)
  then show "suffix t s" by (metis suffixI)
next
  assume "suffix t s"
  then obtain zs where "s = zs @ t" by (auto simp: suffix_def)
  then show "endsWith s t" by (simp add: endsWith_def)
qed

section \<open>Sending\<close>

lemma sendMessage_returns:
  "\<exists>result attempts. sendMessage send m uid chatId t mediaUrl = (Inr result, attempts)"
  by (auto simp: sendMessage_def try_catch_def Let_def split: option.splits sum.splits)

text \<open>
  C5. For a user id that is not a key of the connection map, whatever the chat, the text
  and the media URL are, \<^verbatim>\<open>sendMessage\<close> returns (it does not throw) the result
  \<^verbatim>\<open>{success: false, error: "User not connected"}\<close> and calls no socket.
\<close>

theorem sendMessage_unknown_user:
  assumes "map_of (connections m) uid = None"
  shows "sendMessage send m uid chatId t mediaUrl
           = (Inr \<lparr>success = False, messageId = None, sr_error = Some ''User not connected''\<rparr>, [])"
  using assms by (simp add: sendMessage_def connections_get_def)

theorem sendMessage_unknown_user_witness:
  "sendMessage ok_send two_users ''zed'' ''123@x'' ''hi'' (Some ''https://x.test/a.png'')
     = (Inr \<lparr>success = False, messageId = None, sr_error = Some ''User not connected''\<rparr>, [])"
proof -
  have "map_of (connections two_users) ''zed'' = None"
    by (simp add: two_users_def)
  then show ?thesis by (rule sendMessage_unknown_user)
qed

section \<open>The HTTP endpoint\<close>

lemma entries_one_connected:
  "entries one_connected
     = [(''carol'', (example_conn ''carol'' (Some ''15550001111'') Connected)\<lparr>socket := Some 0\<rparr>)]"
  by (simp add: entries_def one_connected_def deref_def List.map_filter_def)

lemma connected_one_connected: "getConnectedUserIds one_connected = [''carol'']"
  by (simp add: getConnectedUserIds_def entries_one_connected example_conn_def)

lemma send_one_connected:
  "sendMessage send one_connected ''carol'' ''123@x'' ''hi'' None
     = (try_catch (case send 0 ''123@x'' (TextContent ''hi'') of Inl e \<Rightarrow> Inl e
                   | Inr i \<Rightarrow> Inr \<lparr>success = True, messageId = i, sr_error = None\<rparr>)
          (\<lambda>e. Inr \<lparr>success = False, messageId = None, sr_error = Some (message_or e ''Send failed'')\<rparr>),
        [(0, ''123@x'', TextContent ''hi'')])"
  by (simp add: sendMessage_def connections_get_def one_connected_def deref_def example_conn_def
      build_content_def truthy_def Let_def)

text \<open>
  C1 as stated fails: with one connected user and a socket whose send rejects, the request
  of the spec's example is answered with status 500 and the failed send result.
\<close>

theorem handler_failed_send_500:
  "handler failing_send one_connected hi_request
     = (\<lparr>res_status = 500,
         res_body = \<lparr>success = False, messageId = None, sr_error = Some ''Connection Closed''\<rparr>\<rparr>,
        [(0, ''123@x'', TextContent ''hi'')])"
  by (simp add: handler_def hi_request_def hi_payload_def resolve_user_def connected_one_connected
      truthy_def first_media_url_def send_one_connected failing_send_def try_catch_def message_or_def)

text \<open>
  C1, amended. For a POST whose payload has \<^verbatim>\<open>integrationId\<close> \<^verbatim>\<open>"whatsapp"\<close>, non-empty
  \<^verbatim>\<open>chatId\<close> and \<^verbatim>\<open>text\<close>, and a user id that is given or is the only connected user, the
  handler calls \<^verbatim>\<open>sendMessage\<close> and answers with its result as the body; the status is 200
  when the result's \<^verbatim>\<open>success\<close> is true and 500 when it is false.
\<close>

theorem handler_send_status:
  assumes "req_method req = ''POST''" and "req_payload req = Inr payload"
    and "op_integrationId payload = Some ''whatsapp''"
    and "truthy (op_chatId payload)" and "truthy (op_text payload)"
    and "(truthy (op_userId payload) \<and> uid = the (op_userId payload))
         \<or> (\<not> truthy (op_userId payload) \<and> getConnectedUserIds m = [uid])"
  shows "\<exists>result attempts.
           sendMessage send m uid (the (op_chatId payload)) (the (op_text payload))
              (first_media_url payload) = (Inr result, attempts)
           \<and> handler send m req
               = (\<lparr>res_status = (if success result then 200 else 500), res_body = result\<rparr>, attempts)"
proof -
  have r: "resolve_user m payload = Inr uid"
    using assms(6) by (auto simp: resolve_user_def)
  obtain result attempts where
    s: "sendMessage send m uid (the (op_chatId payload)) (the (op_text payload))
              (first_media_url payload) = (Inr result, attempts)"
    using sendMessage_returns by blast
  have "handler send m req
      = (\<lparr>res_status = (if success result then 200 else 500), res_body = result\<rparr>, attempts)"
    using assms(1-5) by (simp add: handler_def r s truthy_def)
  with s show ?thesis by blast
qed

theorem handler_send_status_witness:
  "handler ok_send one_connected hi_request
     = (\<lparr>res_status = 200,
         res_body = \<lparr>success = True, messageId = Some ''3EB0A1'', sr_error = None\<rparr>\<rparr>,
        [(0, ''123@x'', TextContent ''hi'')])"
proof -
  have s: "sendMessage ok_send one_connected ''carol'' ''123@x'' ''hi'' None
      = (Inr \<lparr>success = True, messageId = Some ''3EB0A1'', sr_error = None\<rparr>,
         [(0, ''123@x'', TextContent ''hi'')])"
    by (simp add: send_one_connected ok_send_def try_catch_def)
  have "\<exists>result attempts.
           sendMessage ok_send one_connected ''carol'' (the (op_chatId hi_payload))
              (the (op_text hi_payload)) (first_media_url hi_payload) = (Inr result, attempts)
           \<and> handler ok_send one_connected hi_request
               = (\<lparr>res_status = (if success result then 200 else 500), res_body = result\<rparr>, attempts)"
    by (rule handler_send_status)
       (simp_all add: hi_request_def hi_payload_def truthy_def connected_one_connected)
  then show ?thesis
    using s by (auto simp: hi_payload_def first_media_url_def)
qed

section \<open>Evaluating the examples\<close>

lemmas eval_defs = run_def step_def connectUser_def connections_get_def deref_def new_manager_def
  writeCredentials_def getAuthDir_def getBaseAuthDir_def example_env_def ensure_registered_def
  patch_registered_def example_parse_def example_stringify_def creds_old_def creds_new_def pre_key_def
  creds_old_text_def creds_new_text_def pre_key_text_def get_prop_def set_prop_def js_truthy_def
  extractPhone_def truthy_def opt_prop_def jid_user_def split_first_def createSocket_def
  connection_update_event_def on_connection_update_def baileys_def timer_fired_def disconnectUser_def
  disconnect_error_def show_int_def Let_def

section \<open>The reconnect counter\<close>

lemma on_connection_update_attempts:
  assumes "0 \<le> reconnectAttempts c \<and> reconnectAttempts c \<le> 3"
  shows "0 \<le> reconnectAttempts (fst (on_connection_update dr now u c))
       \<and> reconnectAttempts (fst (on_connection_update dr now u c)) \<le> 3"
  using assms by (cases u) (auto simp: on_connection_update_def Let_def)

lemma attempts_ok_update:
  assumes "attempts_ok m" and "r < length (objs m) \<Longrightarrow> 0 \<le> reconnectAttempts c \<and> reconnectAttempts c \<le> 3"
  shows "attempts_ok (m\<lparr>objs := (objs m)[r := c]\<rparr>)"
proof (cases "r < length (objs m)")
  case True
  then show ?thesis
    using assms by (auto simp: attempts_ok_def dest!: set_update_subset_insert [THEN subsetD])
next
  case False
  then have "(objs m)[r := c] = objs m" by (simp add: list_update_beyond)
  then show ?thesis using assms(1) by (simp add: attempts_ok_def)
qed

lemma createSocket_attempts:
  assumes "attempts_ok m"
  shows "attempts_ok (fst (createSocket lib r m))"
proof (cases lib)
  case (Some e)
  then show ?thesis using assms by (simp add: createSocket_def)
next
  case None
  have "attempts_ok (m\<lparr>objs := (objs m)[r := (objs m ! r)\<lparr>socket := Some (length (sockets m)), status := Connecting\<rparr>]\<rparr>)"
    by (rule attempts_ok_update [OF assms]) (use assms in \<open>auto simp: attempts_ok_def\<close>)
  then show ?thesis using None by (simp add: createSocket_def Let_def attempts_ok_def)
qed

lemma connectUser_attempts:
  assumes "attempts_ok m"
  shows "attempts_ok (fst (connectUser env lib uid credentials metadata m))"
proof -
  have new: "\<And>fs dir ph. attempts_ok (m\<lparr>files := fs, objs := objs m @ [\<lparr>userId = uid, socket = None, authDir = dir, status = Connecting,
                                   phone = ph, error = None, lastConnectedAt = None,
                                   reconnectAttempts = 0\<rparr>], connections := AList.update uid (length (objs m)) (connections m)\<rparr>)"
    using assms by (auto simp: attempts_ok_def)
  have fsok: "\<And>fs. attempts_ok (m\<lparr>files := fs\<rparr>)"
    using assms by (simp add: attempts_ok_def)
  show ?thesis
    unfolding connectUser_def Let_def
    by (auto split: prod.splits sum.splits simp: assms fsok intro!: createSocket_attempts new)
qed

lemma disconnectUser_objs: "objs (disconnectUser uid m) = objs m"
  by (simp add: disconnectUser_def Let_def split: option.splits)

lemma disconnectUser_attempts: "attempts_ok m \<Longrightarrow> attempts_ok (disconnectUser uid m)"
  by (simp add: attempts_ok_def disconnectUser_objs)

lemma update_event_attempts:
  assumes "attempts_ok m"
  shows "attempts_ok (connection_update_event dr sock now u m)"
proof (cases "sock < length (sockets m)")
  case False
  then show ?thesis using assms by (simp add: connection_update_event_def)
next
  case True
  let ?r = "sockets m ! sock"
  let ?c = "fst (on_connection_update dr now u (objs m ! ?r))"
  have "attempts_ok (m\<lparr>objs := (objs m)[?r := ?c]\<rparr>)"
  proof (rule attempts_ok_update [OF assms])
    assume "?r < length (objs m)"
    then have "0 \<le> reconnectAttempts (objs m ! ?r) \<and> reconnectAttempts (objs m ! ?r) \<le> 3"
      using assms by (simp add: attempts_ok_def)
    then show "0 \<le> reconnectAttempts ?c \<and> reconnectAttempts ?c \<le> 3"
      by (rule on_connection_update_attempts)
  qed
  then show ?thesis using True
    by (simp add: connection_update_event_def Let_def attempts_ok_def split: prod.splits)
qed

lemma timer_fired_attempts:
  assumes "attempts_ok m"
  shows "attempts_ok (fst (timer_fired lib i m))"
proof -
  have "\<And>ts. attempts_ok (m\<lparr>timers := ts\<rparr>)"
    using assms by (simp add: attempts_ok_def)
  then show ?thesis
    using assms by (simp add: timer_fired_def createSocket_attempts)
qed

lemma connect_all_attempts:
  "attempts_ok m \<Longrightarrow> attempts_ok (connect_all env libs i xs m)"
  by (induction xs arbitrary: i m) (simp_all add: connectUser_attempts)

lemma initialize_attempts:
  assumes "attempts_ok m"
  shows "attempts_ok (fst (initialize env fetch libs m))"
proof -
  have "\<And>xs. attempts_ok ((connect_all env libs 0 xs m)\<lparr>isInitialized := True\<rparr>)"
    using connect_all_attempts [OF assms] by (simp add: attempts_ok_def)
  then show ?thesis
    using assms by (simp add: initialize_def Let_def split: prod.splits)
qed

lemma shutdown_attempts:
  assumes "attempts_ok m"
  shows "attempts_ok (shutdown m)"
proof -
  have "\<And>m'. attempts_ok m' \<Longrightarrow> attempts_ok (foldl (\<lambda>m' uid. disconnectUser uid m') m' us)" for us
    by (induction us) (simp_all add: disconnectUser_attempts)
  from this [OF assms] show ?thesis
    by (simp add: shutdown_def attempts_ok_def)
qed

lemma step_attempts: "attempts_ok m \<Longrightarrow> attempts_ok (step env dr m ev)"
  by (cases ev)
     (simp_all add: step_def connectUser_attempts disconnectUser_attempts update_event_attempts
        timer_fired_attempts initialize_attempts shutdown_attempts)

lemma run_attempts: "attempts_ok m \<Longrightarrow> attempts_ok (run env dr m evs)"
  unfolding run_def by (induction evs arbitrary: m) (simp_all add: step_attempts)

lemma run_three_reconnects:
  "objs (run example_env baileys new_manager three_reconnects)
     = [carol_session 3 Disconnected (Some ''disconnect_515'') 3]
   \<and> timers (run example_env baileys new_manager three_reconnects) = []
   \<and> sockets (run example_env baileys new_manager three_reconnects) = [0, 0, 0, 0]"
  by (simp add: eval_defs three_reconnects_def carol_session_def carol_dir_def show_nat.simps)

text \<open>
  C3. In every state the manager reaches from its initial state, by any sequence of method
  calls, socket events and timers, every session's \<^verbatim>\<open>reconnectAttempts\<close> is between 0 and 3.
  When the counter is 3 and a close with a qualifying code (restart required, 515,
  connection replaced) arrives, the handler schedules no timer, keeps the counter, and sets
  the status to disconnected, or to error when the code is the logged-out code.
\<close>

theorem reconnectAttempts_bounded:
  "(\<forall>c \<in> set (objs (run env dr new_manager evs)). 0 \<le> reconnectAttempts c \<and> reconnectAttempts c \<le> 3)
   \<and> (\<forall>userConn code now.
         reconnectAttempts userConn = 3
         \<and> (code = Some (restartRequired dr) \<or> code = Some 515 \<or> code = Some (connectionReplaced dr))
         \<longrightarrow> on_connection_update dr now (ConnClose code) userConn
             = (userConn\<lparr>status := (if code = Some (loggedOut dr) then Failed else Disconnected),
                         error := Some (if code = Some (loggedOut dr) then ''logged_out''
                                        else disconnect_error code)\<rparr>,
                False))
   \<and> (\<forall>m sock code now.
         sock < length (sockets m) \<and> reconnectAttempts (objs m ! (sockets m ! sock)) = 3
         \<longrightarrow> timers (connection_update_event dr sock now (ConnClose code) m) = timers m)"
proof (intro conjI allI impI)
  have "attempts_ok new_manager"
    by (simp add: attempts_ok_def new_manager_def)
  then have "attempts_ok (run env dr new_manager evs)"
    by (rule run_attempts)
  then show "\<forall>c \<in> set (objs (run env dr new_manager evs)). 0 \<le> reconnectAttempts c \<and> reconnectAttempts c \<le> 3"
    by (simp add: attempts_ok_def)
next
  fix userConn :: UserConnection and code :: "int option" and now :: int
  assume "reconnectAttempts userConn = 3
         \<and> (code = Some (restartRequired dr) \<or> code = Some 515 \<or> code = Some (connectionReplaced dr))"
  then show "on_connection_update dr now (ConnClose code) userConn
             = (userConn\<lparr>status := (if code = Some (loggedOut dr) then Failed else Disconnected),
                         error := Some (if code = Some (loggedOut dr) then ''logged_out''
                                        else disconnect_error code)\<rparr>,
                False)"
    by (simp add: on_connection_update_def Let_def)
next
  fix m :: manager and sock :: nat and code :: "int option" and now :: int
  assume "sock < length (sockets m) \<and> reconnectAttempts (objs m ! (sockets m ! sock)) = 3"
  then show "timers (connection_update_event dr sock now (ConnClose code) m) = timers m"
    by (simp add: connection_update_event_def on_connection_update_def Let_def split: prod.splits)
qed

theorem reconnectAttempts_bounded_witness:
  "objs (run example_env baileys new_manager three_reconnects)
     = [carol_session 3 Disconnected (Some ''disconnect_515'') 3]
   \<and> timers (run example_env baileys new_manager three_reconnects) = []
   \<and> on_connection_update baileys 5000 (ConnClose (Some 515)) (carol_session 3 Connecting None 3)
       = (carol_session 3 Disconnected (Some ''disconnect_515'') 3, False)"
proof -
  have "reconnectAttempts (carol_session 3 Connecting None 3) = 3
         \<and> (Some 515 = Some (restartRequired baileys) \<or> Some 515 = Some (515::int)
              \<or> Some 515 = Some (connectionReplaced baileys))"
    by (simp add: carol_session_def)
  with reconnectAttempts_bounded [of example_env baileys three_reconnects]
  have "on_connection_update baileys 5000 (ConnClose (Some 515)) (carol_session 3 Connecting None 3)
        = ((carol_session 3 Connecting None 3)\<lparr>status := (if Some 515 = Some (loggedOut baileys) then Failed else Disconnected),
                         error := Some (if Some 515 = Some (loggedOut baileys) then ''logged_out''
                                        else disconnect_error (Some 515))\<rparr>,
                False)"
    by blast
  then have "on_connection_update baileys 5000 (ConnClose (Some 515)) (carol_session 3 Connecting None 3)
       = (carol_session 3 Disconnected (Some ''disconnect_515'') 3, False)"
    by (simp add: baileys_def carol_session_def disconnect_error_def show_int_def show_nat.simps)
  with run_three_reconnects show ?thesis by simp
qed

section \<open>Inbound messages\<close>

lemma js_trim_blank:
  assumes "\<forall>c \<in> set s. is_js_whitespace c"
  shows "js_trim s = []"
proof -
  have d: "dropWhile is_js_whitespace s = []"
    using assms by (induction s) auto
  show ?thesis unfolding js_trim_def d by simp
qed

text \<open>
  C4. A message whose conversation identifier ends in \<^verbatim>\<open>@status\<close> or \<^verbatim>\<open>@broadcast\<close>, or
  that is marked \<^verbatim>\<open>fromMe\<close>, or whose extracted text consists of white space only (the
  empty text included), is never passed to the registered callback.
\<close>

theorem filtered_never_reaches_callback:
  assumes "(\<exists>k jid. key msg = Some k \<and> remoteJid k = Some jid
               \<and> (suffix ''@status'' jid \<or> suffix ''@broadcast'' jid))
           \<or> (\<exists>k. key msg = Some k \<and> fromMe k = Some True)
           \<or> (\<exists>content. message msg = Some content
               \<and> (\<forall>c \<in> set (message_text content). is_js_whitespace c))"
  shows "\<forall>im. Callback im \<notin> set (handleIncomingMessage isJidGroup groupMetadata now m userConn msg)"
proof -
  from assms consider
      (reserved) k jid where "key msg = Some k" and "remoteJid k = Some jid"
        and "suffix ''@status'' jid \<or> suffix ''@broadcast'' jid"
    | (self) k where "key msg = Some k" and "fromMe k = Some True"
    | (blank) content where "message msg = Some content"
        and "\<forall>c \<in> set (message_text content). is_js_whitespace c"
    by blast
  then have "handleIncomingMessage isJidGroup groupMetadata now m userConn msg = []"
  proof cases
    case reserved
    then show ?thesis
      by (simp add: handleIncomingMessage_def endsWith_suffix Let_def truthy_def)
  next
    case self
    then show ?thesis
      by (simp add: handleIncomingMessage_def Let_def)
  next
    case blank
    then show ?thesis
      by (simp add: handleIncomingMessage_def js_trim_blank Let_def)
  qed
  then show ?thesis by simp
qed

text \<open>The same direct message reaches the callback with the text \<^verbatim>\<open>hello\<close> and not with a space and a tab.\<close>

theorem filtered_never_reaches_callback_witness:
  "(\<forall>im. Callback im \<notin> set (handleIncomingMessage is_group_jid (\<lambda>jid. Inl OtherThrown) 5 listening
                                  (objs listening ! 0) (direct_msg [CHR 0x20, CHR 0x09])))
   \<and> (\<exists>im. im_text im = ''hello''
         \<and> Callback im \<in> set (handleIncomingMessage is_group_jid (\<lambda>jid. Inl OtherThrown) 5 listening
                                  (objs listening ! 0) (direct_msg ''hello'')))"
proof -
  let ?blank = "\<lparr>conversation = Some [CHR 0x20, CHR 0x09], extendedText = None,
                  imageCaption = None, videoCaption = None\<rparr>"
  have "message (direct_msg [CHR 0x20, CHR 0x09]) = Some ?blank
        \<and> (\<forall>c \<in> set (message_text ?blank). is_js_whitespace c)"
    by (simp add: direct_msg_def message_text_def or_else_def truthy_def is_js_whitespace_def)
  then have "\<forall>im. Callback im \<notin> set (handleIncomingMessage is_group_jid (\<lambda>jid. Inl OtherThrown) 5
                 listening (objs listening ! 0) (direct_msg [CHR 0x20, CHR 0x09]))"
    by (intro filtered_never_reaches_callback) blast
  moreover have "\<exists>im. im_text im = ''hello''
         \<and> Callback im \<in> set (handleIncomingMessage is_group_jid (\<lambda>jid. Inl OtherThrown) 5 listening
                                  (objs listening ! 0) (direct_msg ''hello''))"
    by (simp add: handleIncomingMessage_def listening_def one_connected_def direct_msg_def
        truthy_def endsWith_def message_text_def or_else_def js_trim_def is_js_whitespace_def
        is_group_jid_def Let_def)
  ultimately show ?thesis by blast
qed

section \<open>Forwarding\<close>

lemma show_nat_500: "show_nat 500 = ''500''"
  by (simp add: show_nat.simps)

lemma forward_returns:
  "\<exists>r calls. forwardToRaccoonAI config fetch payload = (Inr r, calls)"
  by (auto simp: forwardToRaccoonAI_def try_catch_def Let_def split: sum.splits)

lemma forward_not_ok:
  assumes "enabled config = Some True" and "truthy (webhookUrl config)"
    and "fetch (the (webhookUrl config)) payload = Inr response"
    and "\<not> (200 \<le> resp_status response \<and> resp_status response \<le> 299)"
  shows "forwardToRaccoonAI config fetch payload
          = (Inr \<lparr>fr_success = False, fr_sessionId = None, fr_sessionUrl = None,
                  fr_error = Some (''HTTP '' @ show_nat (resp_status response) @ '': ''
                     @ (case resp_text response of None \<Rightarrow> ''Unknown error'' | Some body \<Rightarrow> body))\<rparr>,
             [(the (webhookUrl config), payload)])"
  using assms
  by (simp add: forwardToRaccoonAI_def try_catch_def resp_ok_def forward_failure_def Let_def)

text \<open>
  C6. When the bridge is enabled and has a webhook URL, and the webhook answers with a
  status outside 200 to 299, \<^verbatim>\<open>forwardToRaccoonAI\<close> returns \<^verbatim>\<open>{success: false}\<close> whose error
  is \<^verbatim>\<open>HTTP <status>: <body>\<close>, the body being \<^verbatim>\<open>Unknown error\<close> when it cannot be read;
  status 500 with body \<^verbatim>\<open>oops\<close> gives the error \<^verbatim>\<open>HTTP 500: oops\<close>. Whatever the
  configuration, the payload and the network do, the call returns a result and does not
  throw.
\<close>

theorem forward_non_2xx:
  "(enabled config = Some True \<and> truthy (webhookUrl config)
      \<and> fetch (the (webhookUrl config)) payload = Inr response
      \<and> \<not> (200 \<le> resp_status response \<and> resp_status response \<le> 299)
    \<longrightarrow> forwardToRaccoonAI config fetch payload
          = (Inr \<lparr>fr_success = False, fr_sessionId = None, fr_sessionUrl = None,
                  fr_error = Some (''HTTP '' @ show_nat (resp_status response) @ '': ''
                     @ (case resp_text response of None \<Rightarrow> ''Unknown error'' | Some body \<Rightarrow> body))\<rparr>,
             [(the (webhookUrl config), payload)]))
   \<and> (enabled config = Some True \<and> truthy (webhookUrl config)
      \<and> fetch (the (webhookUrl config)) payload = Inr response
      \<and> resp_status response = 500 \<and> resp_text response = Some ''oops''
    \<longrightarrow> fst (forwardToRaccoonAI config fetch payload)
          = Inr \<lparr>fr_success = False, fr_sessionId = None, fr_sessionUrl = None,
                 fr_error = Some ''HTTP 500: oops''\<rparr>)
   \<and> (\<exists>r calls. forwardToRaccoonAI config fetch payload = (Inr r, calls))"
proof (intro conjI impI)
  show "\<exists>r calls. forwardToRaccoonAI config fetch payload = (Inr r, calls)"
    by (rule forward_returns)
next
  assume "enabled config = Some True \<and> truthy (webhookUrl config)
      \<and> fetch (the (webhookUrl config)) payload = Inr response
      \<and> \<not> (200 \<le> resp_status response \<and> resp_status response \<le> 299)"
  then show "forwardToRaccoonAI config fetch payload
          = (Inr \<lparr>fr_success = False, fr_sessionId = None, fr_sessionUrl = None,
                  fr_error = Some (''HTTP '' @ show_nat (resp_status response) @ '': ''
                     @ (case resp_text response of None \<Rightarrow> ''Unknown error'' | Some body \<Rightarrow> body))\<rparr>,
             [(the (webhookUrl config), payload)])"
    by (simp add: forward_not_ok)
next
  assume a: "enabled config = Some True \<and> truthy (webhookUrl config)
      \<and> fetch (the (webhookUrl config)) payload = Inr response
      \<and> resp_status response = 500 \<and> resp_text response = Some ''oops''"
  then have "\<not> (200 \<le> resp_status response \<and> resp_status response \<le> 299)"
    by simp
  with a show "fst (forwardToRaccoonAI config fetch payload)
          = Inr \<lparr>fr_success = False, fr_sessionId = None, fr_sessionUrl = None,
                 fr_error = Some ''HTTP 500: oops''\<rparr>"
    by (simp add: forward_not_ok show_nat_500)
qed

theorem forward_non_2xx_witness:
  "forwardToRaccoonAI example_config oops_fetch example_payload
     = (Inr \<lparr>fr_success = False, fr_sessionId = None, fr_sessionUrl = None,
             fr_error = Some ''HTTP 500: oops''\<rparr>,
        [(''https://hook.test/in'', example_payload)])"
proof -
  let ?response = "\<lparr>resp_status = 500, resp_text = Some ''oops'',
                     resp_json = Inl (ErrorObj ''Unexpected token o in JSON'')\<rparr>"
  have h: "enabled example_config = Some True \<and> truthy (webhookUrl example_config)
      \<and> oops_fetch (the (webhookUrl example_config)) example_payload = Inr ?response
      \<and> \<not> (200 \<le> resp_status ?response \<and> resp_status ?response \<le> 299)"
    by (simp add: example_config_def truthy_def oops_fetch_def)
  show ?thesis
    using forward_non_2xx [of example_config oops_fetch example_payload ?response] h
    by (simp add: example_config_def show_nat_500)
qed

section \<open>The credential store\<close>

lemma write_entries_add:
  "\<exists>D out. (\<forall>fs. write_entries env dir credentials fs = (fs ++ D, out))
      \<and> (out = None \<longrightarrow>
            (\<forall>(k, v) \<in> set credentials. v \<noteq> JNull \<longrightarrow> path_join env [dir, k @ ''.json''] \<in> dom D))"
proof (induction credentials)
  case Nil
  show ?case
    by (rule exI [of _ Map.empty], rule exI [of _ None]) simp
next
  case (Cons kv rest)
  obtain k v where kv: "kv = (k, v)" by (cases kv)
  from Cons.IH obtain D out where IH: "\<And>fs. write_entries env dir rest fs = (fs ++ D, out)"
    and dom: "out = None \<Longrightarrow> \<forall>(k, v) \<in> set rest. v \<noteq> JNull \<longrightarrow> path_join env [dir, k @ ''.json''] \<in> dom D"
    by blast
  let ?p = "path_join env [dir, k @ ''.json'']"
  show ?case
  proof (cases "v = JNull")
    case True
    then have "\<forall>fs. write_entries env dir (kv # rest) fs = (fs ++ D, out)"
      by (simp add: kv IH)
    moreover have "out = None \<longrightarrow>
        (\<forall>(k, v) \<in> set (kv # rest). v \<noteq> JNull \<longrightarrow> path_join env [dir, k @ ''.json''] \<in> dom D)"
      using True dom by (simp add: kv)
    ultimately show ?thesis by blast
  next
    case False
    show ?thesis
    proof (cases "write_fails env ?p")
      case (Some e)
      with False have "\<forall>fs. write_entries env dir (kv # rest) fs = (fs ++ Map.empty, Some e)"
        by (simp add: kv)
      then show ?thesis by blast
    next
      case None
      let ?D = "[?p \<mapsto> stringify env v] ++ D"
      have "\<And>fs. fs(?p \<mapsto> stringify env v) ++ D = fs ++ ?D"
        by (simp add: fun_eq_iff map_add_def split: option.splits)
      with None False have "\<forall>fs. write_entries env dir (kv # rest) fs = (fs ++ ?D, out)"
        by (simp add: kv IH)
      moreover have "out = None \<longrightarrow>
          (\<forall>(k, v) \<in> set (kv # rest). v \<noteq> JNull \<longrightarrow> path_join env [dir, k @ ''.json''] \<in> dom ?D)"
        using dom by (auto simp: kv)
      ultimately show ?thesis by blast
    qed
  qed
qed

lemma ensure_registered_other:
  "x \<noteq> path_join env [dir, ''creds.json''] \<Longrightarrow> ensure_registered env dir fs x = fs x"
  by (auto simp: ensure_registered_def patch_registered_def Let_def split: option.splits sum.splits if_splits)

lemma patch_registered_again:
  assumes p: "patch_registered env (path_join env [dir, ''creds.json'']) t0 fs = Inr fs'"
    and ne: "fs' \<noteq> fs"
    and rt: "\<And>c c'. parse env t0 = Some c \<Longrightarrow> set_prop c ''registered'' (JBool True) = Inr c'
               \<Longrightarrow> parse env (stringify env c') = Some c'"
  shows "ensure_registered env dir fs' = fs'"
proof -
  let ?p = "path_join env [dir, ''creds.json'']"
  from p ne obtain c v c' where
    r: "read_fails env ?p = None" and c: "parse env t0 = Some c"
    and g: "get_prop c ''registered'' = Inr v" and nt: "\<not> js_truthy v"
    and s: "set_prop c ''registered'' (JBool True) = Inr c'"
    and w: "write_fails env ?p = None" and fs': "fs' = fs(?p \<mapsto> stringify env c')"
    by (auto simp: patch_registered_def split: option.splits sum.splits if_splits)
  have reread: "parse env (stringify env c') = Some c'"
    using rt c s by blast
  have at: "fs' ?p = Some (stringify env c')"
    by (simp add: fs')
  from s consider
      (obj) kvs where "c = JObj kvs" and "c' = JObj (AList.update ''registered'' (JBool True) kvs)"
    | (arr) xs where "c = JArr xs" and "c' = JArr xs"
    by (auto simp: set_prop_def split: json.splits)
  then have "patch_registered env ?p (stringify env c') fs' = Inr fs'"
  proof cases
    case obj
    have "get_prop c' ''registered'' = Inr (Some (JBool True))"
      by (simp add: obj(2) get_prop_def update_conv')
    then show ?thesis
      by (simp add: patch_registered_def r reread js_truthy_def)
  next
    case arr
    have "get_prop c' ''registered'' = Inr None" and "set_prop c' ''registered'' (JBool True) = Inr c'"
      by (simp_all add: arr(2) get_prop_def set_prop_def)
    moreover have "fs'(?p \<mapsto> stringify env c') = fs'"
      by (simp add: fs')
    ultimately show ?thesis
      by (simp add: patch_registered_def r reread js_truthy_def w)
  qed
  then show ?thesis
    unfolding ensure_registered_def Let_def by (simp add: at)
qed

lemma ensure_registered_idem:
  assumes rt: "\<And>t0 c c'. fs (path_join env [dir, ''creds.json'']) = Some t0
               \<Longrightarrow> parse env t0 = Some c
               \<Longrightarrow> set_prop c ''registered'' (JBool True) = Inr c'
               \<Longrightarrow> parse env (stringify env c') = Some c'"
  shows "ensure_registered env dir (ensure_registered env dir fs) = ensure_registered env dir fs"
proof -
  let ?p = "path_join env [dir, ''creds.json'']"
  show ?thesis
  proof (cases "fs ?p")
    case None
    then show ?thesis by (simp add: ensure_registered_def)
  next
    case (Some t0)
    show ?thesis
    proof (cases "patch_registered env ?p t0 fs")
      case (Inl e)
      with Some show ?thesis by (simp add: ensure_registered_def)
    next
      case (Inr fs')
      then have e1: "ensure_registered env dir fs = fs'"
        using Some by (simp add: ensure_registered_def)
      show ?thesis
      proof (cases "fs' = fs")
        case True
        with e1 show ?thesis by simp
      next
        case False
        have "\<And>c c'. parse env t0 = Some c \<Longrightarrow> set_prop c ''registered'' (JBool True) = Inr c'
               \<Longrightarrow> parse env (stringify env c') = Some c'"
          using rt Some by blast
        with Inr False have "ensure_registered env dir fs' = fs'"
          by (rule patch_registered_again)
        with e1 show ?thesis by simp
      qed
    qed
  qed
qed

text \<open>
  C7. Writing the same credentials for the same user a second time leaves every file as
  the first write left it, and returns (or throws) what the first write did. One property
  of the runtime is assumed, at one value, and only when no key of the credential map is
  written to \<^verbatim>\<open>creds.json\<close> and the directory already holds a \<^verbatim>\<open>creds.json\<close> that parses:
  \<^verbatim>\<open>JSON.parse\<close> of \<^verbatim>\<open>JSON.stringify\<close> of that record with \<^verbatim>\<open>registered\<close> set gives the record back.
\<close>

theorem writeCredentials_idempotent:
  assumes rt: "\<And>t0 c c'.
       \<forall>(k, v) \<in> set credentials. v \<noteq> JNull \<longrightarrow>
          path_join env [getAuthDir env uid, k @ ''.json'']
            \<noteq> path_join env [getAuthDir env uid, ''creds.json'']
       \<Longrightarrow> fs (path_join env [getAuthDir env uid, ''creds.json'']) = Some t0
       \<Longrightarrow> parse env t0 = Some c
       \<Longrightarrow> set_prop c ''registered'' (JBool True) = Inr c'
       \<Longrightarrow> parse env (stringify env c') = Some c'"
  shows "writeCredentials env uid credentials (fst (writeCredentials env uid credentials fs))
           = writeCredentials env uid credentials fs"
proof (cases "mkdir_fails env (getAuthDir env uid)")
  case (Some e)
  then show ?thesis by (simp add: writeCredentials_def)
next
  case None
  let ?dir = "getAuthDir env uid"
  let ?p = "path_join env [?dir, ''creds.json'']"
  obtain D out where W: "\<And>fs. write_entries env ?dir credentials fs = (fs ++ D, out)"
    and written: "out = None \<Longrightarrow>
        \<forall>(k, v) \<in> set credentials. v \<noteq> JNull \<longrightarrow> path_join env [?dir, k @ ''.json''] \<in> dom D"
    using write_entries_add [of env ?dir credentials] by blast
  let ?g = "fs ++ D"
  have gD: "?g ++ D = ?g"
    by (simp add: fun_eq_iff map_add_def split: option.splits)
  show ?thesis
  proof (cases out)
    case (Some e)
    then show ?thesis using None W gD by (simp add: writeCredentials_def Let_def)
  next
    case out: None
    have first: "writeCredentials env uid credentials fs = (ensure_registered env ?dir ?g, Inr ?dir)"
      using None W out by (simp add: writeCredentials_def Let_def)
    have second: "writeCredentials env uid credentials (ensure_registered env ?dir ?g)
         = (ensure_registered env ?dir (ensure_registered env ?dir ?g ++ D), Inr ?dir)"
      using None W out by (simp add: writeCredentials_def Let_def)
    have "ensure_registered env ?dir (ensure_registered env ?dir ?g ++ D) = ensure_registered env ?dir ?g"
    proof (cases "D ?p")
      case (Some t)
      have "ensure_registered env ?dir ?g ++ D = ?g"
      proof
        fix x show "(ensure_registered env ?dir ?g ++ D) x = ?g x"
          using Some by (cases "x = ?p") (auto simp: map_add_def ensure_registered_other split: option.splits)
      qed
      then show ?thesis by simp
    next
      case Dp: None
      have same: "ensure_registered env ?dir ?g ++ D = ensure_registered env ?dir ?g"
      proof
        fix x show "(ensure_registered env ?dir ?g ++ D) x = ensure_registered env ?dir ?g x"
          using Dp by (cases "x = ?p") (auto simp: map_add_def ensure_registered_other split: option.splits)
      qed
      have gp: "?g ?p = fs ?p" using Dp by (simp add: map_add_def)
      have apart: "\<forall>(k, v) \<in> set credentials. v \<noteq> JNull \<longrightarrow> path_join env [?dir, k @ ''.json''] \<noteq> ?p"
        using written [OF out] Dp by (auto simp: dom_def)
      have "ensure_registered env ?dir (ensure_registered env ?dir ?g) = ensure_registered env ?dir ?g"
      proof (rule ensure_registered_idem)
        fix t0 c c'
        assume "?g ?p = Some t0" and "parse env t0 = Some c"
          and "set_prop c ''registered'' (JBool True) = Inr c'"
        then show "parse env (stringify env c') = Some c'"
          using rt [OF apart] gp by simp
      qed
      with same show ?thesis by simp
    qed
    with first second show ?thesis by simp
  qed
qed

lemma write_once:
  "writeCredentials example_env ''carol'' example_credentials example_files
     = ([carol_dir @ ''/creds.json'' \<mapsto> creds_new_text, carol_dir @ ''/pre-key-1.json'' \<mapsto> pre_key_text],
        Inr carol_dir)"
  by (auto simp add: eval_defs example_files_def example_credentials_def carol_dir_def)

theorem writeCredentials_idempotent_witness:
  "writeCredentials example_env ''carol'' example_credentials
       [carol_dir @ ''/creds.json'' \<mapsto> creds_new_text, carol_dir @ ''/pre-key-1.json'' \<mapsto> pre_key_text]
     = ([carol_dir @ ''/creds.json'' \<mapsto> creds_new_text, carol_dir @ ''/pre-key-1.json'' \<mapsto> pre_key_text],
        Inr carol_dir)"
proof -
  have "parse example_env (stringify example_env c') = Some c'"
    if "example_files (path_join example_env [getAuthDir example_env ''carol'', ''creds.json'']) = Some t0"
      and "parse example_env t0 = Some c"
      and "set_prop c ''registered'' (JBool True) = Inr c'" for t0 c c'
  proof -
    have "t0 = creds_old_text"
      using that(1) by (simp add: eval_defs example_files_def carol_dir_def)
    then have "c = creds_old"
      using that(2) by (simp add: example_env_def example_parse_def)
    then have "c' = creds_new"
      using that(3) by (auto simp: set_prop_def creds_old_def creds_new_def)
    then show ?thesis
      by (simp add: example_env_def example_parse_def example_stringify_def creds_old_def creds_new_def
          pre_key_def creds_old_text_def creds_new_text_def pre_key_text_def)
  qed
  then have "writeCredentials example_env ''carol'' example_credentials
               (fst (writeCredentials example_env ''carol'' example_credentials example_files))
             = writeCredentials example_env ''carol'' example_credentials example_files"
    by (intro writeCredentials_idempotent) blast
  then show ?thesis by (simp add: write_once)
qed

section \<open>Phone lookup\<close>

text \<open>One iteration of the loop, with both tests of the body read as one condition.\<close>

lemma phone_loop_step:
  "phone_loop n ((u, c) # es) =
     (if truthy (phone c) \<and> (suffix n (the (phone c)) \<or> suffix (the (phone c)) n) then Some u
      else phone_loop n es)"
  by (auto simp: endsWith_suffix)

lemma phone_loop_find:
  "phone_loop n es =
     map_option fst (find (\<lambda>(u, c). truthy (phone c) \<and> (suffix n (the (phone c)) \<or> suffix (the (phone c)) n)) es)"
proof (induction es)
  case Nil
  show ?case by simp
next
  case (Cons e es)
  obtain u c where e: "e = (u, c)" by (cases e)
  show ?case unfolding e phone_loop_step using Cons.IH by auto
qed

lemma entries_two_users:
  "entries two_users = (''alice'', example_conn ''alice'' (Some ''5551234567'') Disconnected)
     # [(''bob'', example_conn ''bob'' (Some ''442071838750'') Connected)]"
  by (simp add: entries_def two_users_def deref_def List.map_filter_def)

lemma getUserIdByPhone_find:
  "getUserIdByPhone m ph =
     map_option fst
       (find (\<lambda>(u, c). case phone c of None \<Rightarrow> False
                        | Some p \<Rightarrow> p \<noteq> [] \<and> (suffix p (normalize_phone ph) \<or> suffix (normalize_phone ph) p))
          (entries m))"
proof -
  have "(\<lambda>(u :: string, c :: UserConnection). truthy (phone c)
            \<and> (suffix (normalize_phone ph) (the (phone c)) \<or> suffix (the (phone c)) (normalize_phone ph)))
      = (\<lambda>(u, c). case phone c of None \<Rightarrow> False
                        | Some p \<Rightarrow> p \<noteq> [] \<and> (suffix p (normalize_phone ph) \<or> suffix (normalize_phone ph) p))"
    by (auto simp: fun_eq_iff truthy_def split: option.splits)
  then show ?thesis
    by (simp add: getUserIdByPhone_def phone_loop_find)
qed

text \<open>
  C8 as stated fails. An identity \<^verbatim>\<open>"@s.whatsapp.net"\<close> is stored as the empty phone. The
  empty string is a suffix of the normalised input \<^verbatim>\<open>"15551234567"\<close>, so the session
  matches in the claim's sense, but the test \<^verbatim>\<open>conn.phone &&\<close> skips it and the lookup
  returns nothing.
\<close>

theorem blank_phone_not_found:
  "extractPhone [(''creds'', JObj [(''me'', JObj [(''id'', JStr ''@s.whatsapp.net'')])])] None = Inr (Some '''')
   \<and> entries blank_phone = [(''dave'', (example_conn ''dave'' (Some '''') Connecting)\<lparr>socket := Some 0\<rparr>)]
   \<and> phone ((example_conn ''dave'' (Some '''') Connecting)\<lparr>socket := Some 0\<rparr>) = Some ''''
   \<and> suffix '''' (normalize_phone ''15551234567'')
   \<and> getUserIdByPhone blank_phone ''15551234567'' = None"
  by (simp add: extractPhone_def truthy_def opt_prop_def js_truthy_def jid_user_def split_first_def
      entries_def blank_phone_def deref_def List.map_filter_def example_conn_def
      getUserIdByPhone_def normalize_phone_def is_digit_def endsWith_def Let_def)

text \<open>
  C8, amended. \<^verbatim>\<open>getUserIdByPhone\<close> removes every character that is not a digit from its
  input and returns the user id of the first entry of the map whose stored phone is a
  non-empty string that is a suffix of the normalised input or has the normalised input as
  a suffix. So a returned user id belongs to such a session; a user id is returned
  whenever such a session exists, wherever it stands in the map; and nothing is returned
  when there is none. Input \<^verbatim>\<open>"15551234567"\<close> finds a session when one stores
  \<^verbatim>\<open>"5551234567"\<close>, and when one stores the digits of \<^verbatim>\<open>"+1-555-123-4567"\<close>; it is that
  session's user when the session is the first entry.
\<close>

theorem getUserIdByPhone_first_match:
  "normalize_phone ph = filter (\<lambda>c. c \<in> set ''0123456789'') ph
   \<and> getUserIdByPhone m ph =
       map_option fst
         (find (\<lambda>(u, c). case phone c of None \<Rightarrow> False
                          | Some p \<Rightarrow> p \<noteq> [] \<and> (suffix p (normalize_phone ph) \<or> suffix (normalize_phone ph) p))
            (entries m))
   \<and> (\<forall>u. getUserIdByPhone m ph = Some u \<longrightarrow>
         (\<exists>c p. (u, c) \<in> set (entries m) \<and> phone c = Some p \<and> p \<noteq> []
            \<and> (suffix p (normalize_phone ph) \<or> suffix (normalize_phone ph) p)))
   \<and> ((\<exists>(u, c) \<in> set (entries m). \<exists>p. phone c = Some p \<and> p \<noteq> []
            \<and> (suffix p (normalize_phone ph) \<or> suffix (normalize_phone ph) p))
        \<longrightarrow> (\<exists>u. getUserIdByPhone m ph = Some u))
   \<and> ((\<forall>(u, c) \<in> set (entries m). \<forall>p. phone c = Some p \<and> p \<noteq> [] \<longrightarrow>
          \<not> suffix p (normalize_phone ph) \<and> \<not> suffix (normalize_phone ph) p)
        \<longrightarrow> getUserIdByPhone m ph = None)
   \<and> (\<forall>u c. (u, c) \<in> set (entries m) \<and> phone c = Some ''5551234567''
         \<longrightarrow> (\<exists>u'. getUserIdByPhone m ''15551234567'' = Some u'))
   \<and> (\<forall>u c. (u, c) \<in> set (entries m) \<and> phone c = Some (normalize_phone ''+1-555-123-4567'')
         \<longrightarrow> (\<exists>u'. getUserIdByPhone m ''15551234567'' = Some u'))
   \<and> (\<forall>u c rest. entries m = (u, c) # rest \<and> phone c = Some ''5551234567''
         \<longrightarrow> getUserIdByPhone m ''15551234567'' = Some u)
   \<and> (\<forall>u c rest. entries m = (u, c) # rest \<and> phone c = Some (normalize_phone ''+1-555-123-4567'')
         \<longrightarrow> getUserIdByPhone m ''15551234567'' = Some u)"
proof -
  define P where "P n = (\<lambda>(u :: string, c :: UserConnection). case phone c of None \<Rightarrow> False
                          | Some p \<Rightarrow> p \<noteq> [] \<and> (suffix p n \<or> suffix n p))" for n
  have eq: "getUserIdByPhone m q = map_option fst (find (P (normalize_phone q)) (entries m))" for q
    unfolding P_def by (rule getUserIdByPhone_find)
  have complete: "\<exists>u. getUserIdByPhone m q = Some u"
    if "(u0, c) \<in> set (entries m)" and "phone c = Some p" and "p \<noteq> []"
      and "suffix p (normalize_phone q) \<or> suffix (normalize_phone q) p" for q u0 c p
  proof -
    have "P (normalize_phone q) (u0, c)"
      using that by (simp add: P_def)
    with that(1) have "find (P (normalize_phone q)) (entries m) \<noteq> None"
      unfolding find_None_iff by blast
    then show ?thesis by (auto simp: eq)
  qed
  have n: "normalize_phone ''15551234567'' = ''15551234567''"
    "normalize_phone ''+1-555-123-4567'' = ''15551234567''"
    by (simp_all add: normalize_phone_def is_digit_def)
  have s: "suffix ''5551234567'' ''15551234567''"
    by (simp add: endsWith_suffix [symmetric] endsWith_def)
  show ?thesis
  proof (intro conjI allI impI)
    show "normalize_phone ph = filter (\<lambda>c. c \<in> set ''0123456789'') ph"
      unfolding normalize_phone_def by (rule filter_cong) (simp_all add: is_digit_def)
  next
    show "getUserIdByPhone m ph =
       map_option fst
         (find (\<lambda>(u, c). case phone c of None \<Rightarrow> False
                          | Some p \<Rightarrow> p \<noteq> [] \<and> (suffix p (normalize_phone ph) \<or> suffix (normalize_phone ph) p))
            (entries m))"
      by (rule getUserIdByPhone_find)
  next
    fix u assume "getUserIdByPhone m ph = Some u"
    then obtain e where f: "find (P (normalize_phone ph)) (entries m) = Some e" and u: "u = fst e"
      by (auto simp: eq)
    obtain u' c where e: "e = (u', c)" by (cases e)
    from f have "e \<in> set (entries m)" and "P (normalize_phone ph) (u', c)"
      unfolding e by (auto simp: find_Some_iff nth_mem dest: sym)
    then show "\<exists>c p. (u, c) \<in> set (entries m) \<and> phone c = Some p \<and> p \<noteq> []
            \<and> (suffix p (normalize_phone ph) \<or> suffix (normalize_phone ph) p)"
      using u e by (auto simp: P_def split: option.splits)
  next
    assume "\<exists>(u, c) \<in> set (entries m). \<exists>p. phone c = Some p \<and> p \<noteq> []
            \<and> (suffix p (normalize_phone ph) \<or> suffix (normalize_phone ph) p)"
    then show "\<exists>u. getUserIdByPhone m ph = Some u"
      using complete [of _ _ _ ph] by auto
  next
    assume a: "\<forall>(u, c) \<in> set (entries m). \<forall>p. phone c = Some p \<and> p \<noteq> [] \<longrightarrow>
          \<not> suffix p (normalize_phone ph) \<and> \<not> suffix (normalize_phone ph) p"
    have "\<And>e. e \<in> set (entries m) \<Longrightarrow> \<not> P (normalize_phone ph) e"
      using a by (auto simp: P_def split: option.splits)
    then have "find (P (normalize_phone ph)) (entries m) = None"
      unfolding find_None_iff by blast
    then show "getUserIdByPhone m ph = None" by (simp add: eq)
  next
    fix u c assume "(u, c) \<in> set (entries m) \<and> phone c = Some ''5551234567''"
    then show "\<exists>u'. getUserIdByPhone m ''15551234567'' = Some u'"
      using complete [of u c "''5551234567''" "''15551234567''"] s by (simp add: n)
  next
    fix u c assume "(u, c) \<in> set (entries m) \<and> phone c = Some (normalize_phone ''+1-555-123-4567'')"
    then show "\<exists>u'. getUserIdByPhone m ''15551234567'' = Some u'"
      using complete [of u c "''15551234567''" "''15551234567''"] by (simp add: n)
  next
    fix u c rest
    assume "entries m = (u, c) # rest \<and> phone c = Some ''5551234567''"
    then show "getUserIdByPhone m ''15551234567'' = Some u"
      by (simp add: getUserIdByPhone_def normalize_phone_def is_digit_def truthy_def endsWith_def)
  next
    fix u c rest
    assume "entries m = (u, c) # rest \<and> phone c = Some (normalize_phone ''+1-555-123-4567'')"
    then show "getUserIdByPhone m ''15551234567'' = Some u"
      by (simp add: getUserIdByPhone_def normalize_phone_def is_digit_def truthy_def endsWith_def)
  qed
qed

text \<open>Bob is the second entry; no stored phone is related to the third input.\<close>

theorem getUserIdByPhone_first_match_witness:
  "getUserIdByPhone two_users ''+44 20 7183 8750'' = Some ''bob''
   \<and> getUserIdByPhone two_users ''15551234567'' = Some ''alice''
   \<and> getUserIdByPhone two_users ''07911 123456'' = None"
proof -
  have e: "entries two_users = (''alice'', example_conn ''alice'' (Some ''5551234567'') Disconnected)
     # [(''bob'', example_conn ''bob'' (Some ''442071838750'') Connected)]"
    by (rule entries_two_users)
  have n: "normalize_phone ''+44 20 7183 8750'' = ''442071838750''"
    "normalize_phone ''15551234567'' = ''15551234567''"
    "normalize_phone ''07911 123456'' = ''07911123456''"
    by (simp_all add: normalize_phone_def is_digit_def)
  have s: "\<not> suffix ''5551234567'' ''442071838750''" "\<not> suffix ''442071838750'' ''5551234567''"
    "suffix ''5551234567'' ''15551234567''"
    "\<not> suffix ''5551234567'' ''07911123456''" "\<not> suffix ''07911123456'' ''5551234567''"
    "\<not> suffix ''442071838750'' ''07911123456''" "\<not> suffix ''07911123456'' ''442071838750''"
    by (simp_all add: endsWith_suffix [symmetric] endsWith_def)
  show ?thesis
    using getUserIdByPhone_first_match [of "''+44 20 7183 8750''" two_users]
      getUserIdByPhone_first_match [of "''15551234567''" two_users]
      getUserIdByPhone_first_match [of "''07911 123456''" two_users]
    by (simp add: e n s example_conn_def)
qed

text \<open>
  C9. When the input holds no digit, the normalised form is empty and \<^verbatim>\<open>getUserIdByPhone\<close>
  returns the first entry of the map whose stored phone is a non-empty string, whatever
  that connection's status is.
\<close>

theorem getUserIdByPhone_no_digits:
  assumes "\<forall>ch \<in> set ph. \<not> is_digit ch"
  shows "getUserIdByPhone m ph = map_option fst (find (\<lambda>(u, c). truthy (phone c)) (entries m))"
proof -
  have n: "normalize_phone ph = []"
    using assms by (simp add: normalize_phone_def)
  show ?thesis
    by (simp add: getUserIdByPhone_def n phone_loop_find)
qed

theorem getUserIdByPhone_no_digits_witness:
  "getUserIdByPhone two_users ''n/a'' = Some ''alice''
   \<and> status (the (connections_get two_users ''alice'')) = Disconnected"
proof -
  have h: "\<forall>ch \<in> set ''n/a''. \<not> is_digit ch"
    by (simp add: is_digit_def)
  have "getUserIdByPhone two_users ''n/a'' = Some ''alice''"
    unfolding getUserIdByPhone_no_digits [OF h]
    by (simp add: entries_two_users example_conn_def truthy_def)
  moreover have "status (the (connections_get two_users ''alice'')) = Disconnected"
    by (simp add: connections_get_def two_users_def deref_def example_conn_def)
  ultimately show ?thesis by blast
qed

section \<open>A reconnect timer after disconnectUser\<close>

text \<open>
  C2 as stated fails. After a close with code 515 the session has a pending timer;
  \<^verbatim>\<open>disconnectUser\<close> empties the map and leaves the timer. When the timer fires, a second
  socket exists for the removed object and the object's \<^verbatim>\<open>socket\<close> field names it.
\<close>

theorem stale_timer_opens_socket:
  "connections (run example_env baileys one_connected removed_with_timer) = []
   \<and> timers (run example_env baileys one_connected removed_with_timer) = [0]
   \<and> sockets (run example_env baileys one_connected removed_with_timer) = [0]
   \<and> socket (objs (run example_env baileys one_connected removed_with_timer) ! 0) = Some 0
   \<and> sockets (run example_env baileys one_connected stale_timer) = [0, 0]
   \<and> socket (objs (run example_env baileys one_connected stale_timer) ! 0) = Some 1"
  by (simp add: run_def step_def stale_timer_def removed_with_timer_def one_connected_def
      example_conn_def connection_update_event_def on_connection_update_def baileys_def
      disconnectUser_def connections_get_def deref_def timer_fired_def createSocket_def Let_def)

lemma disconnectUser_fields:
  "objs (disconnectUser uid m) = objs m" "sockets (disconnectUser uid m) = sockets m"
  "timers (disconnectUser uid m) = timers m"
  "connections (disconnectUser uid m) = filter (\<lambda>(k, r). k \<noteq> uid) (connections m)"
  by (simp_all add: disconnectUser_def Let_def split: option.splits)

lemma map_of_removed: "map_of (filter (\<lambda>(k, r). k \<noteq> uid) xs) uid = None"
  by (induction xs) auto

text \<open>
  C2, amended. Let a session be removed by \<^verbatim>\<open>disconnectUser\<close> while a reconnect timer for
  its object is pending. When the timer fires, the user stays absent from the connection
  map, the map and every other object are unchanged, and the timer is consumed; but the
  callback runs \<^verbatim>\<open>createSocket\<close> on the removed object: unless a library call throws, a new
  socket is created for it and its \<^verbatim>\<open>socket\<close> and \<^verbatim>\<open>status\<close> (connecting) are assigned.
\<close>

theorem stale_timer_creates_socket:
  assumes "map_of (connections m) uid = Some r" and "r < length (objs m)"
    and "i < length (timers m)" and "timers m ! i = r"
    and "m' = fst (timer_fired lib i (disconnectUser uid m))"
  shows "connections_get m' uid = None
       \<and> connections m' = connections (disconnectUser uid m)
       \<and> timers m' = take i (timers m) @ drop (Suc i) (timers m)
       \<and> (\<forall>r'. r' \<noteq> r \<longrightarrow> objs m' ! r' = objs m ! r')
       \<and> (lib = None \<longrightarrow> sockets m' = sockets m @ [r]
             \<and> objs m' ! r = (objs m ! r)\<lparr>socket := Some (length (sockets m)), status := Connecting\<rparr>)
       \<and> (lib \<noteq> None \<longrightarrow> sockets m' = sockets m \<and> objs m' = objs m)"
proof (cases lib)
  case None
  have m': "m' = (disconnectUser uid m)\<lparr>timers := take i (timers m) @ drop (Suc i) (timers m),
      sockets := sockets m @ [r],
      objs := (objs m)[r := (objs m ! r)\<lparr>socket := Some (length (sockets m)), status := Connecting\<rparr>]\<rparr>"
    using assms None by (simp add: timer_fired_def createSocket_def disconnectUser_fields Let_def)
  show ?thesis
    using assms(2) None
    by (simp add: m' connections_get_def disconnectUser_fields map_of_removed)
next
  case (Some e)
  have m': "m' = (disconnectUser uid m)\<lparr>timers := take i (timers m) @ drop (Suc i) (timers m)\<rparr>"
    using assms Some by (simp add: timer_fired_def createSocket_def disconnectUser_fields)
  show ?thesis
    using Some by (simp add: m' connections_get_def disconnectUser_fields map_of_removed)
qed

theorem stale_timer_creates_socket_witness:
  "connections_get (fst (timer_fired None 0 (disconnectUser ''carol''
        (connection_update_event baileys 0 2000 (ConnClose (Some 515)) one_connected)))) ''carol'' = None
   \<and> sockets (fst (timer_fired None 0 (disconnectUser ''carol''
        (connection_update_event baileys 0 2000 (ConnClose (Some 515)) one_connected)))) = [0, 0]
   \<and> objs (fst (timer_fired None 0 (disconnectUser ''carol''
        (connection_update_event baileys 0 2000 (ConnClose (Some 515)) one_connected)))) ! 0
       = (example_conn ''carol'' (Some ''15550001111'') Connecting)
           \<lparr>socket := Some 1, reconnectAttempts := 1\<rparr>"
proof -
  let ?m = "connection_update_event baileys 0 2000 (ConnClose (Some 515)) one_connected"
  have m: "?m = one_connected\<lparr>objs := [(example_conn ''carol'' (Some ''15550001111'') Connecting)
                                   \<lparr>socket := Some 0, reconnectAttempts := 1\<rparr>], timers := [0]\<rparr>"
    by (simp add: connection_update_event_def on_connection_update_def baileys_def one_connected_def
        example_conn_def Let_def)
  have "map_of (connections ?m) ''carol'' = Some 0" and "0 < length (objs ?m)"
    and "0 < length (timers ?m)" and "timers ?m ! 0 = 0"
    by (simp_all only: m) (simp_all add: one_connected_def)
  from stale_timer_creates_socket [OF this refl, of None]
  show ?thesis
    by (simp only: m) (simp add: one_connected_def example_conn_def)
qed

section \<open>initialize and shutdown\<close>

lemma fetchIntegrations_failed:
  assumes "\<not> truthy (apiUrl m)
           \<or> (\<exists>e. fetch (the (apiUrl m) @ ''/i/moltbot/integrations'') = Inl e)
           \<or> (\<exists>response. fetch (the (apiUrl m) @ ''/i/moltbot/integrations'') = Inr response
                 \<and> (\<not> resp_ok response \<or> (\<exists>e. resp_json response = Inl e)))"
  shows "fst (fetchIntegrations fetch m) = []"
  using assms by (auto simp: fetchIntegrations_def try_catch_def Let_def)

lemma createSocket_flag: "isInitialized (fst (createSocket lib r m)) = isInitialized m"
  by (simp add: createSocket_def Let_def split: option.splits)

lemma connectUser_flag: "isInitialized (fst (connectUser env lib uid credentials metadata m)) = isInitialized m"
  by (simp add: connectUser_def Let_def createSocket_flag split: prod.splits sum.splits)

lemma disconnectUser_flag: "isInitialized (disconnectUser uid m) = isInitialized m"
  by (simp add: disconnectUser_def Let_def split: option.splits)

lemma update_flag: "isInitialized (connection_update_event dr sock now u m) = isInitialized m"
  by (simp add: connection_update_event_def Let_def split: prod.splits)

lemma timer_flag: "isInitialized (fst (timer_fired lib i m)) = isInitialized m"
  by (simp add: timer_fired_def createSocket_flag)

lemma initialize_again: "isInitialized m \<Longrightarrow> initialize env fetch libs m = (m, [])"
  by (simp add: initialize_def)

lemma initialize_flag: "isInitialized (fst (initialize env fetch libs m))"
  by (simp add: initialize_def Let_def split: prod.splits)

lemma shutdown_flag: "\<not> isInitialized (shutdown m)"
  by (simp add: shutdown_def)

lemma step_flag:
  assumes "isInitialized m" and "ev \<noteq> Shutdown"
  shows "isInitialized (step env dr m ev)"
  using assms
  by (cases ev) (simp_all add: step_def connectUser_flag disconnectUser_flag update_flag timer_flag initialize_flag)

lemma run_flag:
  "isInitialized m \<Longrightarrow> Shutdown \<notin> set evs \<Longrightarrow> isInitialized (run env dr m evs)"
  unfolding run_def
proof (induction evs arbitrary: m)
  case Nil
  then show ?case by simp
next
  case (Cons ev evs)
  then have "isInitialized (step env dr m ev)"
    by (auto intro: step_flag)
  with Cons show ?case by simp
qed

text \<open>
  C10. When the manager is not initialized and the integrations cannot be fetched (no API
  URL, a rejected request, a status outside 200 to 299, or a body that cannot be read),
  \<^verbatim>\<open>initialize\<close> changes nothing but the flag, which it sets. From then on, after any
  events among which there is no \<^verbatim>\<open>shutdown\<close>, a call of \<^verbatim>\<open>initialize\<close> returns at once: it
  requests nothing and leaves the manager as it is. After a \<^verbatim>\<open>shutdown\<close> the flag is reset.
\<close>

theorem initialize_once:
  assumes "\<not> isInitialized m"
    and "\<not> truthy (apiUrl m)
           \<or> (\<exists>e. fetch (the (apiUrl m) @ ''/i/moltbot/integrations'') = Inl e)
           \<or> (\<exists>response. fetch (the (apiUrl m) @ ''/i/moltbot/integrations'') = Inr response
                 \<and> (\<not> resp_ok response \<or> (\<exists>e. resp_json response = Inl e)))"
  shows "fst (initialize env fetch libs m) = m\<lparr>isInitialized := True\<rparr>
       \<and> (\<forall>evs env' fetch' libs'. Shutdown \<notin> set evs \<longrightarrow>
             initialize env' fetch' libs' (run env dr (fst (initialize env fetch libs m)) evs)
               = (run env dr (fst (initialize env fetch libs m)) evs, []))
       \<and> (\<forall>evs. \<not> isInitialized (run env dr (fst (initialize env fetch libs m)) (evs @ [Shutdown])))"
proof (intro conjI allI impI)
  show "fst (initialize env fetch libs m) = m\<lparr>isInitialized := True\<rparr>"
  proof -
    have "fst (fetchIntegrations fetch m) = []"
      using assms(2) by (rule fetchIntegrations_failed)
    then obtain requests where "fetchIntegrations fetch m = ([], requests)"
      by (cases "fetchIntegrations fetch m") simp
    then show ?thesis
      using assms(1) by (simp add: initialize_def)
  qed
next
  fix evs env' fetch' libs'
  assume "Shutdown \<notin> set evs"
  then have "isInitialized (run env dr (fst (initialize env fetch libs m)) evs)"
    by (intro run_flag initialize_flag)
  then show "initialize env' fetch' libs' (run env dr (fst (initialize env fetch libs m)) evs)
               = (run env dr (fst (initialize env fetch libs m)) evs, [])"
    by (rule initialize_again)
next
  fix evs
  show "\<not> isInitialized (run env dr (fst (initialize env fetch libs m)) (evs @ [Shutdown]))"
    by (simp add: run_def step_def shutdown_flag)
qed

theorem initialize_once_witness:
  "fst (initialize example_env unavailable (\<lambda>i. None) configured) = configured\<lparr>isInitialized := True\<rparr>
   \<and> initialize example_env lists_carol (\<lambda>i. None) (configured\<lparr>isInitialized := True\<rparr>)
       = (configured\<lparr>isInitialized := True\<rparr>, [])
   \<and> connections (fst (initialize example_env lists_carol (\<lambda>i. None)
                          (shutdown (configured\<lparr>isInitialized := True\<rparr>)))) = [(''carol'', 0)]"
proof -
  have "\<not> isInitialized configured"
    by (simp add: configured_def new_manager_def)
  moreover have "\<not> truthy (apiUrl configured)
           \<or> (\<exists>e. unavailable (the (apiUrl configured) @ ''/i/moltbot/integrations'') = Inl e)
           \<or> (\<exists>response. unavailable (the (apiUrl configured) @ ''/i/moltbot/integrations'') = Inr response
                 \<and> (\<not> resp_ok response \<or> (\<exists>e. resp_json response = Inl e)))"
    by (simp add: unavailable_def resp_ok_def)
  ultimately have w: "fst (initialize example_env unavailable (\<lambda>i. None) configured) = configured\<lparr>isInitialized := True\<rparr>
       \<and> (\<forall>evs env' fetch' libs'. Shutdown \<notin> set evs \<longrightarrow>
             initialize env' fetch' libs' (run example_env baileys (fst (initialize example_env unavailable (\<lambda>i. None) configured)) evs)
               = (run example_env baileys (fst (initialize example_env unavailable (\<lambda>i. None) configured)) evs, []))
       \<and> (\<forall>evs. \<not> isInitialized (run example_env baileys (fst (initialize example_env unavailable (\<lambda>i. None) configured)) (evs @ [Shutdown])))"
    by (rule initialize_once)
  then have first: "fst (initialize example_env unavailable (\<lambda>i. None) configured) = configured\<lparr>isInitialized := True\<rparr>"
    by blast
  from w have "Shutdown \<notin> set [] \<longrightarrow>
      initialize example_env lists_carol (\<lambda>i. None)
        (run example_env baileys (fst (initialize example_env unavailable (\<lambda>i. None) configured)) [])
      = (run example_env baileys (fst (initialize example_env unavailable (\<lambda>i. None) configured)) [], [])"
    by blast
  then have again: "initialize example_env lists_carol (\<lambda>i. None) (configured\<lparr>isInitialized := True\<rparr>)
       = (configured\<lparr>isInitialized := True\<rparr>, [])"
    by (simp add: first run_def)
  have "shutdown (configured\<lparr>isInitialized := True\<rparr>) = configured"
    by (simp add: shutdown_def configured_def new_manager_def)
  moreover have "connections (fst (initialize example_env lists_carol (\<lambda>i. None) configured)) = [(''carol'', 0)]"
    by (simp add: initialize_def fetchIntegrations_def configured_def lists_carol_def resp_ok_def
        try_catch_def eval_defs)
  ultimately show ?thesis using first again by simp
qed

end
